theory Spec2Isabelle
  imports Complex_Main "HOL-Library.Sublist"
begin

section \<open>Python values, strings and exceptions\<close>

text \<open>
  The adapters of \<^verbatim>\<open>revsys.clients\<close> read decoded JSON and build plain dictionaries.
  A decoded value is a \<open>pyval\<close>; a dictionary is an association list with string keys
  (as \<^verbatim>\<open>json.loads\<close> yields them, every key once). Strings are sequences of code points
  below 256. \<open>PNaN\<close> is the missing-value marker pandas puts in a cell that has no value.
\<close>

datatype pyval =
    PNone
  | PBool bool
  | PInt int
  | PStr string
  | PList "pyval list"
  | PDict "(string \<times> pyval) list"
  | PNaN

type_synonym dict = "(string \<times> pyval) list"

text \<open>
  The exceptions the modelled code can raise. \<open>ConnectionError\<close>, \<open>Timeout\<close> and
  \<open>HTTPError\<close> (raised by \<^verbatim>\<open>response.raise_for_status()\<close>, with the status code) are the
  subclasses of \<^verbatim>\<open>requests.exceptions.RequestException\<close>; \<open>PlainException\<close> is a
  bare \<^verbatim>\<open>Exception(msg)\<close>.
\<close>

datatype exc =
    ConnectionError
  | Timeout
  | HTTPError nat
  | PlainException string
  | KeyError string
  | IndexError
  | TypeError
  | AttributeError
  | ValueError string
  | NameError string
  | RuntimeError string

fun is_RequestException :: "exc \<Rightarrow> bool" where
  "is_RequestException ConnectionError = True"
| "is_RequestException Timeout = True"
| "is_RequestException (HTTPError status) = True"
| "is_RequestException e = False"

subsection \<open>Strings\<close>

text \<open>
  \<open>isspace\<close> is Python's \<^verbatim>\<open>str.isspace\<close> on one character (the same characters that
  \<^verbatim>\<open>\s\<close>, \<^verbatim>\<open>str.split()\<close> and \<^verbatim>\<open>str.strip()\<close> treat as whitespace), for code points
  below 256: tab to carriage return, the separators 28 to 31, the space, NEL and the
  no-break space.
\<close>

definition isspace :: "char \<Rightarrow> bool" where
  "isspace c \<longleftrightarrow> of_char c \<in> {9, 10, 11, 12, 13, 28, 29, 30, 31, 32, 133, 160 :: nat}"

definition strip :: "string \<Rightarrow> string" where
  "strip s = rev (dropWhile isspace (rev (dropWhile isspace s)))"

text \<open>\<^verbatim>\<open>s.split()\<close>: the maximal runs of characters that are not whitespace.\<close>

function split_ws :: "string \<Rightarrow> string list" where
  "split_ws s =
     (case dropWhile isspace s of
        [] \<Rightarrow> []
      | c # cs \<Rightarrow> (c # takeWhile (\<lambda>x. \<not> isspace x) cs)
                  # split_ws (dropWhile (\<lambda>x. \<not> isspace x) cs))"
  by pat_completeness auto
termination
proof (relation "measure length")
  show "wf (measure length)" by simp
next
  fix s :: string and c cs
  assume "dropWhile isspace s = c # cs"
  then have "length (c # cs) \<le> length s"
    by (metis length_dropWhile_le)
  moreover have "length (dropWhile (\<lambda>x. \<not> isspace x) cs) \<le> length cs"
    by (rule length_dropWhile_le)
  ultimately show "(dropWhile (\<lambda>x. \<not> isspace x) cs, s) \<in> measure length" by simp
qed

declare split_ws.simps [simp del]

text \<open>\<^verbatim>\<open>s.split(sep)\<close> for a separator of one character: never an empty list.\<close>

fun split_on :: "char \<Rightarrow> string \<Rightarrow> string list" where
  "split_on sep [] = [[]]"
| "split_on sep (c # cs) =
     (if c = sep then [] # split_on sep cs
      else (case split_on sep cs of w # ws \<Rightarrow> (c # w) # ws | [] \<Rightarrow> [[c]]))"

fun join :: "string \<Rightarrow> string list \<Rightarrow> string" where
  "join sep [] = []"
| "join sep [x] = x"
| "join sep (x # y # ys) = x @ sep @ join sep (y # ys)"

text \<open>
  \<^verbatim>\<open>s.upper()\<close> on the ASCII letters. (It is only compared with \<^verbatim>\<open>'N/A'\<close>; no
  character outside ASCII becomes an ASCII character in upper case.)
\<close>

definition upper_char :: "char \<Rightarrow> char" where
  "upper_char c =
     (case map_of (zip ''abcdefghijklmnopqrstuvwxyz'' ''ABCDEFGHIJKLMNOPQRSTUVWXYZ'') c of
        Some u \<Rightarrow> u
      | None \<Rightarrow> c)"

definition upper :: "string \<Rightarrow> string" where
  "upper s = map upper_char s"

definition lower_char :: "char \<Rightarrow> char" where
  "lower_char c =
     (case map_of (zip ''ABCDEFGHIJKLMNOPQRSTUVWXYZ'' ''abcdefghijklmnopqrstuvwxyz'') c of
        Some l \<Rightarrow> l
      | None \<Rightarrow> c)"

definition lower :: "string \<Rightarrow> string" where
  "lower s = map lower_char s"

text \<open>\<^verbatim>\<open>str(n)\<close> for an integer.\<close>

function str_nat :: "nat \<Rightarrow> string" where
  "str_nat n =
     (if n < 10 then [''0123456789'' ! n]
      else str_nat (n div 10) @ [''0123456789'' ! (n mod 10)])"
  by pat_completeness auto
termination
  by (relation "measure id") auto

declare str_nat.simps [simp del]

definition str_int :: "int \<Rightarrow> string" where
  "str_int i = (if i < 0 then CHR ''-'' # str_nat (nat (- i)) else str_nat (nat i))"

subsection \<open>Values\<close>

text \<open>Truthiness, \<^verbatim>\<open>d.get(k, default)\<close>, \<^verbatim>\<open>x[k]\<close> for a string key, and iteration.\<close>

fun truthy :: "pyval \<Rightarrow> bool" where
  "truthy PNone = False"
| "truthy (PBool b) = b"
| "truthy (PInt i) = (i \<noteq> 0)"
| "truthy (PStr s) = (s \<noteq> [])"
| "truthy (PList xs) = (xs \<noteq> [])"
| "truthy (PDict d) = (d \<noteq> [])"
| "truthy PNaN = True"

definition dict_get :: "dict \<Rightarrow> string \<Rightarrow> pyval \<Rightarrow> pyval" where
  "dict_get d k dflt = (case map_of d k of Some v \<Rightarrow> v | None \<Rightarrow> dflt)"

fun py_get :: "pyval \<Rightarrow> string \<Rightarrow> pyval \<Rightarrow> exc + pyval" where
  "py_get (PDict d) k dflt = Inr (dict_get d k dflt)"
| "py_get v k dflt = Inl AttributeError"

definition dict_item :: "dict \<Rightarrow> string \<Rightarrow> exc + pyval" where
  "dict_item d k = (case map_of d k of Some v \<Rightarrow> Inr v | None \<Rightarrow> Inl (KeyError k))"

fun subscript :: "pyval \<Rightarrow> string \<Rightarrow> exc + pyval" where
  "subscript (PDict d) k = dict_item d k"
| "subscript v k = Inl TypeError"

fun py_iter :: "pyval \<Rightarrow> exc + pyval list" where
  "py_iter (PList xs) = Inr xs"
| "py_iter (PStr s) = Inr (map (\<lambda>c. PStr [c]) s)"
| "py_iter (PDict d) = Inr (map (\<lambda>kv. PStr (fst kv)) d)"
| "py_iter v = Inl TypeError"

text \<open>Sequencing of steps that may raise: the first exception ends the computation.\<close>

definition and_then :: "exc + 'a \<Rightarrow> ('a \<Rightarrow> exc + 'b) \<Rightarrow> exc + 'b" where
  "and_then m f = (case m of Inl e \<Rightarrow> Inl e | Inr x \<Rightarrow> f x)"

fun for_each :: "('a \<Rightarrow> exc + 'b) \<Rightarrow> 'a list \<Rightarrow> exc + 'b list" where
  "for_each f [] = Inr []"
| "for_each f (x # xs) =
     and_then (f x) (\<lambda>y. and_then (for_each f xs) (\<lambda>ys. Inr (y # ys)))"

text \<open>\<^verbatim>\<open>sep.join(xs)\<close> raises \<^verbatim>\<open>TypeError\<close> unless every item is a string.\<close>

fun as_str :: "pyval \<Rightarrow> exc + string" where
  "as_str (PStr s) = Inr s"
| "as_str v = Inl TypeError"

definition py_join :: "string \<Rightarrow> pyval list \<Rightarrow> exc + string" where
  "py_join sep xs = and_then (for_each as_str xs) (\<lambda>ss. Inr (join sep ss))"

text \<open>
  \<^verbatim>\<open>repr\<close>, and what an f-string puts for \<^verbatim>\<open>{v}\<close>: a string as it is, any other value
  by its \<^verbatim>\<open>repr\<close>. A string's \<^verbatim>\<open>repr\<close> is quoted (with double quotes when it holds a single
  quote and no double quote) and escapes the backslash, the quote and what is not
  printable.
\<close>

definition hex2 :: "nat \<Rightarrow> string" where
  "hex2 n = [''0123456789abcdef'' ! (n div 16), ''0123456789abcdef'' ! (n mod 16)]"

definition repr_char :: "char \<Rightarrow> char \<Rightarrow> string" where
  "repr_char q c =
     (let n = (of_char c :: nat) in
      if c = q \<or> c = CHR 0x5C then [CHR 0x5C, c]
      else if c = CHR 0x09 then [CHR 0x5C, CHR ''t'']
      else if c = CHR 0x0A then [CHR 0x5C, CHR ''n'']
      else if c = CHR 0x0D then [CHR 0x5C, CHR ''r'']
      else if n < 32 \<or> n = 127 \<or> (128 \<le> n \<and> n \<le> 160) \<or> n = 173
      then [CHR 0x5C, CHR ''x''] @ hex2 n
      else [c])"

definition repr_str :: "string \<Rightarrow> string" where
  "repr_str s =
     (let q = (if CHR 0x27 \<in> set s \<and> CHR 0x22 \<notin> set s then CHR 0x22 else CHR 0x27)
      in [q] @ concat (map (repr_char q) s) @ [q])"

fun py_repr :: "pyval \<Rightarrow> string" where
  "py_repr PNone = ''None''"
| "py_repr (PBool b) = (if b then ''True'' else ''False'')"
| "py_repr (PInt i) = str_int i"
| "py_repr (PStr s) = repr_str s"
| "py_repr (PList xs) = ''['' @ join '', '' (map py_repr xs) @ '']''"
| "py_repr (PDict d) =
     ''{'' @ join '', '' (map (\<lambda>(k, v). repr_str k @ '': '' @ py_repr v) d) @ ''}''"
| "py_repr PNaN = ''nan''"

fun py_format :: "pyval \<Rightarrow> string" where
  "py_format (PStr s) = s"
| "py_format v = py_repr v"

section \<open>The retry policy (\<^verbatim>\<open>http_retry.py\<close>)\<close>

text \<open>
  \<^verbatim>\<open>retry_on_fail = retry(reraise=True, stop=stop_after_attempt(3),
      wait=wait_exponential(multiplier=1, min=1, max=10),
      retry=retry_if_exception_type(requests.exceptions.RequestException))\<close>

  The decorated function is called again and again by the loop of tenacity's
  \<^verbatim>\<open>Retrying.__call__\<close>. The wrapped call is a function of the attempt number (the
  network may answer differently each time). The result records the outcome, how many
  times the function was called, and the seconds slept between the calls.
  \<open>wait_exponential\<close> is tenacity's (version 8 and later):
  \<^verbatim>\<open>max(max(0, min), min(multiplier * 2 ** (attempt_number - 1), max))\<close>.
\<close>

definition wait_exponential :: "nat \<Rightarrow> nat \<Rightarrow> nat \<Rightarrow> nat \<Rightarrow> nat" where
  "wait_exponential multiplier mn mx attempt_number =
     max (max 0 mn) (min (multiplier * 2 ^ (attempt_number - 1)) mx)"

definition stop_after_attempt :: "nat \<Rightarrow> nat \<Rightarrow> bool" where
  "stop_after_attempt max_attempt_number attempt_number \<longleftrightarrow>
     attempt_number \<ge> max_attempt_number"

record 'a retry_result =
  outcome :: "exc + 'a"
  attempts :: nat
  sleeps :: "nat list"

fun retry_if_exception_type :: "exc + 'a \<Rightarrow> bool" where
  "retry_if_exception_type (Inl e) = is_RequestException e"
| "retry_if_exception_type (Inr result) = False"

function retrying :: "(nat \<Rightarrow> exc + 'a) \<Rightarrow> nat \<Rightarrow> nat list \<Rightarrow> 'a retry_result" where
  "retrying fn attempt_number slept =
     (let fut = fn attempt_number in
      if \<not> retry_if_exception_type fut
      then \<lparr>outcome = fut, attempts = attempt_number, sleeps = slept\<rparr>
      else if stop_after_attempt 3 attempt_number
      then \<lparr>outcome = fut, attempts = attempt_number, sleeps = slept\<rparr>
      else retrying fn (attempt_number + 1)
             (slept @ [wait_exponential 1 1 10 attempt_number]))"
  by pat_completeness auto
termination
  by (relation "measure (\<lambda>(fn, attempt_number, slept). 3 - attempt_number)")
     (auto simp: stop_after_attempt_def)

declare retrying.simps [simp del]

definition retry_on_fail :: "(nat \<Rightarrow> exc + 'a) \<Rightarrow> 'a retry_result" where
  "retry_on_fail fn = retrying fn 1 []"

text \<open>
  An HTTP response, and two of the wrapped page functions: PLOS \<^verbatim>\<open>fetch_data\<close>
  (\<^verbatim>\<open>response.raise_for_status(); return response.json()\<close>) and Scopus
  \<^verbatim>\<open>_fetch_scopus_page\<close> (\<^verbatim>\<open>if response.status_code != 200: raise Exception(...)\<close>).
  \<open>requests.get\<close> either raises or returns a response, whose body is taken to decode.
\<close>

record response =
  status_code :: nat
  resp_text :: string
  resp_json :: pyval

definition raise_for_status :: "response \<Rightarrow> exc + unit" where
  "raise_for_status r =
     (if 400 \<le> status_code r \<and> status_code r < 600 then Inl (HTTPError (status_code r))
      else Inr ())"

definition plos_fetch_data_call :: "exc + response \<Rightarrow> exc + pyval" where
  "plos_fetch_data_call got =
     (case got of
        Inl e \<Rightarrow> Inl e
      | Inr r \<Rightarrow> (case raise_for_status r of Inl e \<Rightarrow> Inl e | Inr u \<Rightarrow> Inr (resp_json r)))"

definition plos_fetch_data :: "(nat \<Rightarrow> exc + response) \<Rightarrow> pyval retry_result" where
  "plos_fetch_data requests_get = retry_on_fail (\<lambda>n. plos_fetch_data_call (requests_get n))"

definition fetch_scopus_page_call :: "exc + response \<Rightarrow> exc + pyval" where
  "fetch_scopus_page_call got =
     (case got of
        Inl e \<Rightarrow> Inl e
      | Inr r \<Rightarrow>
          if status_code r \<noteq> 200
          then Inl (PlainException (''Erro: '' @ str_nat (status_code r) @ '', '' @ resp_text r))
          else Inr (resp_json r))"

definition fetch_scopus_page :: "(nat \<Rightarrow> exc + response) \<Rightarrow> pyval retry_result" where
  "fetch_scopus_page requests_get = retry_on_fail (\<lambda>n. fetch_scopus_page_call (requests_get n))"

section \<open>Standard columns and data frames\<close>

text \<open>
  Every client module repeats the same list and the same helper:
  \<^verbatim>\<open>for coluna in STANDARD_COLUMNS: if coluna not in registro: registro[coluna] = "N/A"\<close>.
\<close>

definition STANDARD_COLUMNS :: "string list" where
  "STANDARD_COLUMNS =
     [''ID'', ''Authors'', ''Authors Year'', ''Title'', ''Journal'', ''Publication Year'',
      ''Publication Date'', ''Abstract'', ''DOI'', ''Language'', ''Is Accepted'', ''Is Published'',
      ''Type'', ''Type Crossref'', ''Indexed In'', ''Is Open Access'', ''OA Status'',
      ''Download URL'', ''Cited By Count'', ''API'']"

definition fill_column :: "dict \<Rightarrow> string \<Rightarrow> dict" where
  "fill_column registro coluna =
     (if map_of registro coluna = None then registro @ [(coluna, PStr ''N/A'')] else registro)"

definition padroniza_registro :: "dict \<Rightarrow> dict" where
  "padroniza_registro registro = foldl fill_column registro STANDARD_COLUMNS"

text \<open>
  A data frame is the list of its rows, in index order.
  \<open>DataFrame\<close> is \<^verbatim>\<open>pd.DataFrame(records).reindex(columns=STANDARD_COLUMNS)\<close>: every row
  gets exactly the standard columns, a cell without a value becomes NaN. The cells keep
  the values of the records: the conversion that pandas makes column by column (in a
  column of numbers \<^verbatim>\<open>None\<close> becomes NaN and the integers floats) is left out.
\<close>

type_synonym frame = "dict list"

definition cell :: "dict \<Rightarrow> string \<Rightarrow> pyval" where
  "cell row c = (case map_of row c of Some v \<Rightarrow> v | None \<Rightarrow> PNaN)"

definition reindex_row :: "dict \<Rightarrow> dict" where
  "reindex_row r = map (\<lambda>c. (c, cell r c)) STANDARD_COLUMNS"

definition DataFrame :: "dict list \<Rightarrow> frame" where
  "DataFrame records = map reindex_row records"

text \<open>
  \<^verbatim>\<open>drop_duplicates(subset=..., keep='first')\<close>: a row is dropped when an earlier row has
  the same values in the subset columns. pandas compares the cells through a hash table:
  a list or a dictionary in a cell raises \<^verbatim>\<open>TypeError: unhashable type\<close>, the missing
  values \<^verbatim>\<open>None\<close> and NaN count as one value, and \<^verbatim>\<open>True == 1\<close>, \<^verbatim>\<open>False == 0\<close>.
\<close>

fun hashable :: "pyval \<Rightarrow> bool" where
  "hashable (PList xs) = False"
| "hashable (PDict d) = False"
| "hashable v = True"

fun dedup_cell :: "pyval \<Rightarrow> pyval" where
  "dedup_cell PNaN = PNone"
| "dedup_cell (PBool b) = PInt (if b then 1 else 0)"
| "dedup_cell v = v"

definition dedup_key :: "string list \<Rightarrow> dict \<Rightarrow> pyval list" where
  "dedup_key subset_cols row = map (\<lambda>c. dedup_cell (cell row c)) subset_cols"

fun keep_first :: "string list \<Rightarrow> pyval list list \<Rightarrow> frame \<Rightarrow> frame" where
  "keep_first subset_cols seen [] = []"
| "keep_first subset_cols seen (row # rows) =
     (if dedup_key subset_cols row \<in> set seen then keep_first subset_cols seen rows
      else row # keep_first subset_cols (dedup_key subset_cols row # seen) rows)"

definition drop_duplicates :: "string list \<Rightarrow> frame \<Rightarrow> exc + frame" where
  "drop_duplicates subset_cols df =
     (if \<forall>row \<in> set df. \<forall>c \<in> set subset_cols. hashable (cell row c)
      then Inr (keep_first subset_cols [] df) else Inl TypeError)"

section \<open>The aggregator (\<^verbatim>\<open>cli.py\<close>, command \<^verbatim>\<open>search\<close>)\<close>

text \<open>
  \<^verbatim>\<open>result = pd.concat(df_list, ignore_index=True);
  result.drop_duplicates(subset=['DOI', 'Title'], keep='first', inplace=True)\<close>
\<close>

definition aggregate :: "frame list \<Rightarrow> exc + frame" where
  "aggregate df_list = drop_duplicates [''DOI'', ''Title''] (concat df_list)"

text \<open>
  The adapters are the environment of \<^verbatim>\<open>search\<close>: \<open>adapters q src\<close> is what the branch of
  the \<^verbatim>\<open>try\<close> block for source \<open>src\<close> evaluates to, a frame or an exception. Seven branches
  pass the current query \<^verbatim>\<open>qry\<close>; the OpenAlex and PLOS branches pass \<^verbatim>\<open>query\<close>, the
  whole tuple. The Crossref branch raises \<^verbatim>\<open>ValueError\<close> on an empty frame. Whatever is
  raised inside the block is caught (\<^verbatim>\<open>except Exception: ... continue\<close>).
\<close>

datatype qarg = One string | All "string list"

definition known_sources :: "string list" where
  "known_sources = [''arxiv'', ''crossref'', ''openalex'', ''plos'', ''pubmed'', ''scopus'',
     ''springernature'', ''scholar'', ''ieee'']"

definition try_source :: "(qarg \<Rightarrow> string \<Rightarrow> exc + frame) \<Rightarrow> string list \<Rightarrow> string \<Rightarrow> string
    \<Rightarrow> exc + frame" where
  "try_source adapters query qry src =
     (if src = ''crossref'' then
        (case adapters (One qry) src of
           Inl e \<Rightarrow> Inl e
         | Inr df \<Rightarrow>
             if df = [] then
               Inl (ValueError ''Crossref returned an empty dataframe - no data collected.'')
             else Inr df)
      else if src = ''openalex'' \<or> src = ''plos'' then adapters (All query) src
      else adapters (One qry) src)"

fun search_sources :: "(qarg \<Rightarrow> string \<Rightarrow> exc + frame) \<Rightarrow> string list \<Rightarrow> string
    \<Rightarrow> string list \<Rightarrow> frame list \<Rightarrow> frame list" where
  "search_sources adapters query qry [] df_list = df_list"
| "search_sources adapters query qry (src # rest) df_list =
     (if src \<notin> set known_sources then search_sources adapters query qry rest df_list
      else (case try_source adapters query qry src of
              Inl e \<Rightarrow> search_sources adapters query qry rest df_list
            | Inr df \<Rightarrow>
                if df \<noteq> [] then search_sources adapters query qry rest (df_list @ [df])
                else search_sources adapters query qry rest df_list))"

text \<open>
  One round of the outer loop: the sources are searched, then the frames collected so
  far are saved (\<open>Some result\<close>: the CSV written) or nothing is (\<open>None\<close>:
  "No records found."). An exception of \<^verbatim>\<open>drop_duplicates\<close> is outside the \<^verbatim>\<open>try\<close> block.
\<close>

definition search_query :: "(qarg \<Rightarrow> string \<Rightarrow> exc + frame) \<Rightarrow> string list \<Rightarrow> string list
    \<Rightarrow> string \<Rightarrow> frame list \<Rightarrow> frame list \<times> (exc + frame option)" where
  "search_query adapters query sources_list qry df_list =
     (let df_list' = search_sources adapters query qry sources_list df_list in
      (df_list',
       if df_list' \<noteq> [] then
         (case aggregate df_list' of Inl e \<Rightarrow> Inl e | Inr result \<Rightarrow> Inr (Some result))
       else Inr None))"

fun search_queries :: "(qarg \<Rightarrow> string \<Rightarrow> exc + frame) \<Rightarrow> string list \<Rightarrow> string list
    \<Rightarrow> string list \<Rightarrow> frame list \<Rightarrow> frame option \<Rightarrow> exc + frame option" where
  "search_queries adapters query sources_list [] df_list saved = Inr saved"
| "search_queries adapters query sources_list (qry # rest) df_list saved =
     (case search_query adapters query sources_list qry df_list of
        (df_list', Inl e) \<Rightarrow> Inl e
      | (df_list', Inr None) \<Rightarrow> search_queries adapters query sources_list rest df_list' saved
      | (df_list', Inr (Some result)) \<Rightarrow>
          search_queries adapters query sources_list rest df_list' (Some result))"

definition search :: "(qarg \<Rightarrow> string \<Rightarrow> exc + frame) \<Rightarrow> string list \<Rightarrow> string list
    \<Rightarrow> exc + frame option" where
  "search adapters query sources =
     (let default_sources = [''arxiv'', ''crossref'', ''openalex''];
          sources_list = (if sources \<noteq> [] then sources else default_sources)
      in search_queries adapters query sources_list query [] None)"



section \<open>The OpenAlex adapter (\<^verbatim>\<open>clients/openalex.py\<close>)\<close>

text \<open>
  \<^verbatim>\<open>_convert_inverted_index\<close>: the words of the inverted index, ordered by position
  (\<^verbatim>\<open>words.sort(key=lambda x: x[0])\<close>, a stable sort) and joined with spaces. The
  positions are modelled as integers; with two or more words any other position is taken
  to raise \<^verbatim>\<open>TypeError\<close> in the comparison.
\<close>

fun position_key :: "pyval \<Rightarrow> exc + int" where
  "position_key (PInt i) = Inr i"
| "position_key (PBool b) = Inr (if b then 1 else 0)"
| "position_key v = Inl TypeError"

definition convert_inverted_index :: "pyval \<Rightarrow> exc + string" where
  "convert_inverted_index inverted_index =
     (case inverted_index of
        PDict d \<Rightarrow>
          and_then
            (for_each (\<lambda>(word, positions).
               and_then (py_iter positions) (\<lambda>ps. Inr (map (\<lambda>pos. (pos, word)) ps))) d)
            (\<lambda>groups.
               let words = concat groups in
               if length words \<le> 1 then Inr (join '' '' (map snd words))
               else and_then
                      (for_each (\<lambda>(pos, word).
                         and_then (position_key pos) (\<lambda>k. Inr (k, word))) words)
                      (\<lambda>keyed. Inr (join '' '' (map snd (sort_key fst keyed)))))
      | _ \<Rightarrow> Inl AttributeError)"

text \<open>The block that builds \<^verbatim>\<open>authors_year\<close> (lines 79 to 90).\<close>

definition openalex_authors_year :: "pyval list \<Rightarrow> pyval \<Rightarrow> string" where
  "openalex_authors_year authors_list publication_year =
     (case authors_list of
        [] \<Rightarrow> ''N/A '' @ py_format publication_year
      | [first_author] \<Rightarrow> py_format first_author @ '' '' @ py_format publication_year
      | [first_author, second_author] \<Rightarrow>
          py_format first_author @ '' and '' @ py_format second_author @ '' ''
            @ py_format publication_year
      | first_author # others \<Rightarrow>
          py_format first_author @ '' et al. '' @ py_format publication_year)"

text \<open>
  \<open>has_abstract\<close> is the disjunction of the two tests that open the loop body; a work
  that fails both meets \<^verbatim>\<open>continue\<close>.
\<close>

definition key_truthy :: "dict \<Rightarrow> string \<Rightarrow> bool" where
  "key_truthy w k = (case map_of w k of Some v \<Rightarrow> truthy v | None \<Rightarrow> False)"

definition has_abstract :: "dict \<Rightarrow> bool" where
  "has_abstract w \<longleftrightarrow> key_truthy w ''abstract'' \<or> key_truthy w ''abstract_inverted_index''"

fun py_split :: "pyval \<Rightarrow> char \<Rightarrow> exc + string list" where
  "py_split (PStr s) sep = Inr (split_on sep s)"
| "py_split v sep = Inl AttributeError"

definition openalex_journal :: "dict \<Rightarrow> exc + pyval" where
  "openalex_journal w =
     (let primary_location = dict_get w ''primary_location'' PNone in
      if \<not> truthy primary_location then Inr (PStr '''')
      else and_then (py_get primary_location ''source'' PNone) (\<lambda>source.
             if \<not> truthy source then Inr (PStr '''')
             else py_get source ''display_name'' (PStr ''N/A'')))"

definition openalex_download_url :: "dict \<Rightarrow> exc + pyval" where
  "openalex_download_url w =
     and_then (py_get (dict_get w ''primary_location'' (PDict [])) ''pdf_url'' (PStr ''''))
       (\<lambda>pdf_url.
          let download_url = (if truthy pdf_url then pdf_url else PStr '''');
              best_oa = dict_get w ''best_oa_location'' PNone
          in if \<not> truthy download_url \<and> truthy best_oa
             then py_get best_oa ''pdf_url'' (PStr '''')
             else Inr download_url)"

definition openalex_authors :: "dict \<Rightarrow> exc + pyval list" where
  "openalex_authors w =
     (case map_of w ''authorships'' of
        None \<Rightarrow> Inr []
      | Some authorships \<Rightarrow>
          and_then (py_iter authorships)
            (for_each (\<lambda>a. and_then (subscript a ''author'')
                              (\<lambda>author. subscript author ''display_name''))))"

definition openalex_registro :: "dict \<Rightarrow> pyval \<Rightarrow> exc + dict" where
  "openalex_registro w abstract =
     and_then (dict_item w ''id'') (\<lambda>id_url.
     and_then (py_split id_url CHR ''/'') (\<lambda>parts.
     let unique_id = last parts;
         publication_year = dict_get w ''publication_year'' (PStr ''N/A'');
         publication_date = dict_get w ''publication_date'' (PStr ''N/A'');
         doi = dict_get w ''doi'' (PStr ''N/A'');
         language = dict_get w ''language'' (PStr ''N/A'')
     in
     and_then (openalex_authors w) (\<lambda>authors_list.
     and_then (if authors_list \<noteq> [] then py_join '', '' authors_list else Inr ''N/A'')
       (\<lambda>authors_str.
     let authors_year = openalex_authors_year authors_list publication_year;
         title = dict_get w ''display_name'' (PStr ''N/A'')
     in
     and_then (openalex_journal w) (\<lambda>journal.
     and_then (py_get (dict_get w ''primary_location'' (PDict [])) ''is_accepted'' (PStr ''N/A''))
       (\<lambda>is_accepted.
     and_then (py_get (dict_get w ''primary_location'' (PDict [])) ''is_published'' (PStr ''N/A''))
       (\<lambda>is_published.
     and_then (openalex_download_url w) (\<lambda>download_url.
     let type_val = dict_get w ''type'' (PStr ''N/A'');
         type_crossref = dict_get w ''type_crossref'' (PStr ''N/A'');
         indexed_in = dict_get w ''indexed_in'' (PList [])
     in
     and_then (if truthy indexed_in then and_then (py_iter indexed_in) (py_join '', '')
               else Inr ''N/A'') (\<lambda>indexed_in_str.
     let oa_info = dict_get w ''open_access'' (PDict []) in
     and_then (py_get oa_info ''is_oa'' (PBool False)) (\<lambda>is_oa.
     and_then (py_get oa_info ''oa_status'' (PStr ''N/A'')) (\<lambda>oa_status.
     let cited_by_count = dict_get w ''cited_by_count'' (PStr ''N/A'') in
     Inr (padroniza_registro
       [(''ID'', PStr unique_id),
        (''Authors'', PStr authors_str),
        (''Authors Year'', PStr authors_year),
        (''Title'', title),
        (''Journal'', journal),
        (''Publication Year'', publication_year),
        (''Publication Date'', publication_date),
        (''Abstract'', abstract),
        (''DOI'', doi),
        (''Language'', language),
        (''Is Accepted'', is_accepted),
        (''Is Published'', is_published),
        (''Type'', type_val),
        (''Type Crossref'', type_crossref),
        (''Indexed In'', PStr indexed_in_str),
        (''Is Open Access'', PStr (if truthy is_oa then ''Yes'' else ''No'')),
        (''OA Status'', oa_status),
        (''Download URL'', download_url),
        (''Cited By Count'', cited_by_count),
        (''API'', PStr ''openalex'')]))))))))))))"

text \<open>One round of the loop of \<^verbatim>\<open>_process_works\<close>: \<open>None\<close> is \<^verbatim>\<open>continue\<close>.\<close>

definition process_work :: "dict \<Rightarrow> exc + dict option" where
  "process_work w =
     (if key_truthy w ''abstract'' then
        and_then (dict_item w ''abstract'') (\<lambda>abstract.
        and_then (openalex_registro w abstract) (\<lambda>registro. Inr (Some registro)))
      else if key_truthy w ''abstract_inverted_index'' then
        and_then (dict_item w ''abstract_inverted_index'') (\<lambda>inverted_index.
        and_then (convert_inverted_index inverted_index) (\<lambda>abstract.
        and_then (openalex_registro w (PStr abstract)) (\<lambda>registro. Inr (Some registro))))
      else Inr None)"

fun process_works_rows :: "dict list \<Rightarrow> exc + dict list" where
  "process_works_rows [] = Inr []"
| "process_works_rows (w # works_list) =
     and_then (process_work w) (\<lambda>r.
     and_then (process_works_rows works_list) (\<lambda>rows.
       Inr (case r of None \<Rightarrow> rows | Some registro \<Rightarrow> registro # rows)))"

definition process_works :: "dict list \<Rightarrow> exc + frame" where
  "process_works works_list =
     and_then (process_works_rows works_list) (\<lambda>rows.
       if rows = [] then Inr [] else Inr (DataFrame rows))"

text \<open>
  A work as the OpenAlex API returns it for a paper without a DOI, used below:
  \<^verbatim>\<open>{"id": "https://openalex.org/W2", "doi": null, "display_name": "A study",
    "publication_year": 2023, "authorships": [{"author": {"display_name": "John Doe"}}],
    "abstract_inverted_index": {"world": [1], "Hello": [0]}}\<close>
\<close>

definition ex_work :: dict where
  "ex_work =
     [(''id'', PStr ''https://openalex.org/W2''),
      (''doi'', PNone),
      (''display_name'', PStr ''A study''),
      (''publication_year'', PInt 2023),
      (''authorships'',
         PList [PDict [(''author'', PDict [(''display_name'', PStr ''John Doe'')])]]),
      (''abstract_inverted_index'',
         PDict [(''world'', PList [PInt 1]), (''Hello'', PList [PInt 0])])]"

section \<open>The PubMed adapter (\<^verbatim>\<open>clients/pubmed_api.py\<close>)\<close>

text \<open>\<^verbatim>\<open>x.split()[-1]\<close>: the last word, \<^verbatim>\<open>IndexError\<close> when there is none.\<close>

definition last_word :: "string \<Rightarrow> exc + string" where
  "last_word s = (case split_ws s of [] \<Rightarrow> Inl IndexError | w # ws \<Rightarrow> Inr (last (w # ws)))"

fun last_token :: "pyval \<Rightarrow> exc + string" where
  "last_token (PStr s) = last_word s"
| "last_token v = Inl AttributeError"

text \<open>
  \<^verbatim>\<open>_make_authors_year(authors_list, year)\<close>. The items of the list are the rendered names
  (\<^verbatim>\<open>f"{fore.text} {last.text}"\<close>, or the text of a collective name, which may be \<^verbatim>\<open>None\<close>).
\<close>

definition pubmed_make_authors_year :: "pyval list \<Rightarrow> string \<Rightarrow> exc + string" where
  "pubmed_make_authors_year authors_list year =
     (if authors_list = [] then Inr (''Unknown '' @ year)
      else and_then (last_token (hd authors_list)) (\<lambda>first_author_last.
             if length authors_list = 1 then Inr (first_author_last @ '' '' @ year)
             else Inr (first_author_last @ '' et al. '' @ year)))"

text \<open>
  \<^verbatim>\<open>_parse_data\<close>, one entry. (\<^verbatim>\<open>_create_vancouver_style\<close> is called too; it only formats
  strings, cannot raise, and its result is not used.) The entry comes from
  \<^verbatim>\<open>_parse_pubmed_article\<close>, where \<^verbatim>\<open>is_oa = bool(pmc_id)\<close>: false when the article has no
  PubMed Central identifier.
\<close>

fun py_lower :: "pyval \<Rightarrow> exc + string" where
  "py_lower (PStr s) = Inr (lower s)"
| "py_lower v = Inl AttributeError"

definition pubmed_registro :: "dict \<Rightarrow> exc + dict" where
  "pubmed_registro entry =
     (let pmid = dict_get entry ''pmid'' (PStr []);
          doi = dict_get entry ''doi'' (PStr []);
          final_id = (if truthy doi then doi else pmid);
          authors_str = dict_get entry ''authors_str'' (PStr []);
          authors_year = dict_get entry ''authors_year'' (PStr []);
          title_str = dict_get entry ''title'' (PStr []);
          journal = dict_get entry ''journal'' (PStr []);
          pub_year = dict_get entry ''year'' (PStr []);
          pub_date = dict_get entry ''publication_date'' (PStr []);
          abstract = dict_get entry ''abstract'' (PStr [])
      in
      and_then (py_lower (dict_get entry ''publication_status'' (PStr []))) (\<lambda>pub_status.
      let is_published =
            (if pub_status \<in> set [''epublish'', ''ppublish'', ''pubmed'', ''medline'']
             then ''Yes'' else ''No'');
          is_oa = dict_get entry ''is_oa'' (PBool False);
          oa_status = (if truthy is_oa then ''PMC - Possibly OA'' else ''N/A'');
          download_url = dict_get entry ''download_url'' (PStr [])
      in
      Inr (padroniza_registro
        [(''ID'', final_id),
         (''Authors'', authors_str),
         (''Authors Year'', authors_year),
         (''Title'', title_str),
         (''Journal'', journal),
         (''Publication Year'', pub_year),
         (''Publication Date'', pub_date),
         (''Abstract'', abstract),
         (''DOI'', doi),
         (''Language'', dict_get entry ''language'' (PStr ''N/A'')),
         (''Is Accepted'', PStr ''N/A''),
         (''Is Published'', PStr is_published),
         (''Type'', PStr ''article''),
         (''Type Crossref'', dict_get entry ''contentType'' (PStr ''N/A'')),
         (''Indexed In'', PStr ''PubMed''),
         (''Is Open Access'', PStr (if truthy is_oa then ''Yes'' else ''No'')),
         (''OA Status'', PStr oa_status),
         (''Download URL'', download_url),
         (''Cited By Count'', PInt 0),
         (''API'', PStr ''pubmed'')])))"

definition pubmed_parse_data :: "dict list \<Rightarrow> exc + frame" where
  "pubmed_parse_data raw_data =
     and_then (for_each pubmed_registro raw_data) (\<lambda>records. Inr (DataFrame records))"

section \<open>The Scholar adapter (\<^verbatim>\<open>clients/scholar.py\<close>)\<close>

text \<open>
  One round of the loop of \<^verbatim>\<open>search\<close>. The variable \<^verbatim>\<open>url\<close> is assigned under
  \<^verbatim>\<open>try: ... except: pass\<close>: when \<^verbatim>\<open>pub['pub_url']\<close> raises it keeps the value of the round
  before, and in the first round it is unbound (\<open>None\<close> here), which makes the
  dictionary display raise \<^verbatim>\<open>NameError\<close>.
\<close>

definition scholar_authors_year :: "pyval \<Rightarrow> string \<Rightarrow> exc + string" where
  "scholar_authors_year authors_str year =
     (if truthy authors_str \<and> year \<noteq> ''N/A'' then
        and_then (py_split authors_str CHR '','') (\<lambda>parts.
        and_then (last_word (hd parts)) (\<lambda>w. Inr (w @ '' '' @ year)))
      else Inr (''N/A '' @ year))"

definition scholar_registro :: "pyval \<Rightarrow> pyval option \<Rightarrow> exc + dict \<times> pyval option" where
  "scholar_registro pub url =
     and_then (subscript pub ''bib'') (\<lambda>bib.
     and_then (subscript bib ''title'') (\<lambda>title.
     and_then (subscript bib ''author'') (\<lambda>authors.
     and_then (case authors of
                 PList xs \<Rightarrow> and_then (py_join '', '' xs) (\<lambda>s. Inr (PStr s))
               | _ \<Rightarrow> Inr (if truthy authors then authors else PStr ''N/A'')) (\<lambda>authors_str.
     and_then (subscript bib ''pub_year'') (\<lambda>pub_year.
     let year = py_format pub_year in
     and_then (subscript bib ''abstract'') (\<lambda>abstract.
     and_then (subscript bib ''venue'') (\<lambda>journal.
     let url' = (case subscript pub ''pub_url'' of Inr u \<Rightarrow> Some u | Inl e \<Rightarrow> url) in
     and_then (subscript pub ''num_citations'') (\<lambda>cited_count.
     and_then (scholar_authors_year authors_str year) (\<lambda>authors_year.
     and_then (case url' of None \<Rightarrow> Inl (NameError ''url'') | Some u \<Rightarrow> Inr u) (\<lambda>download_url.
     Inr (padroniza_registro
       [(''Authors'', authors_str),
        (''Authors Year'', PStr authors_year),
        (''Title'', title),
        (''Journal'', journal),
        (''Publication Year'', PStr year),
        (''Publication Date'', PStr year),
        (''Abstract'', abstract),
        (''Language'', PStr ''N/A''),
        (''Is Accepted'', PStr ''N/A''),
        (''Is Published'', PStr (if year \<noteq> ''N/A'' then ''Yes'' else ''No'')),
        (''Type'', PStr ''scholar''),
        (''Type Crossref'', PStr ''N/A''),
        (''Indexed In'', PStr ''Google Scholar''),
        (''Is Open Access'', PStr ''N/A''),
        (''OA Status'', PStr ''N/A''),
        (''Download URL'', download_url),
        (''Cited By Count'', cited_count),
        (''API'', PStr ''scholar'')], url')))))))))))"

fun scholar_loop :: "int \<Rightarrow> nat \<Rightarrow> pyval list \<Rightarrow> pyval option \<Rightarrow> exc + dict list" where
  "scholar_loop max_records idx [] url = Inr []"
| "scholar_loop max_records idx (pub # generator) url =
     (if int idx \<ge> max_records then Inr []
      else and_then (scholar_registro pub url) (\<lambda>(registro, url').
           and_then (scholar_loop max_records (idx + 1) generator url') (\<lambda>records.
           Inr (registro # records))))"

definition scholar_search :: "pyval list \<Rightarrow> int \<Rightarrow> exc + frame" where
  "scholar_search generator max_records =
     and_then (scholar_loop max_records 0 generator None) (\<lambda>records. Inr (DataFrame records))"

text \<open>A publication as \<^verbatim>\<open>scholarly\<close> yields it, used below.\<close>

definition ex_pub :: pyval where
  "ex_pub =
     PDict [(''bib'', PDict [(''title'', PStr ''A study''),
                              (''author'', PList [PStr ''J Doe'', PStr ''A Silva'']),
                              (''pub_year'', PStr ''2023''),
                              (''abstract'', PStr ''Some text''),
                              (''venue'', PStr ''Journal X'')]),
            (''pub_url'', PStr ''http://example.com/p''),
            (''num_citations'', PInt 3)]"

section \<open>The SpringerNature adapter (\<^verbatim>\<open>clients/springernature.py\<close>)\<close>

text \<open>
  \<^verbatim>\<open>fetch_data\<close> has a retry loop of its own, \<^verbatim>\<open>for attempt in range(max_retries)\<close> with
  \<^verbatim>\<open>max_retries = 3\<close> and \<^verbatim>\<open>delay = 10\<close>. \<open>requests_get n\<close> is what \<^verbatim>\<open>requests.get\<close> does at
  the \<open>n\<close>-th call; the body of a response is taken to decode. After an \<open>HTTPError\<close> the
  loop goes on only when the status of \<^verbatim>\<open>response\<close> is 503 or 504, and the error is raised
  at once otherwise; after a timeout or another \<^verbatim>\<open>RequestException\<close> the loop goes on; each
  time it goes on it first sleeps \<^verbatim>\<open>delay * (attempt + 1)\<close> seconds. The variable
  \<^verbatim>\<open>response\<close> is the last response received (\<open>None\<close>: not yet bound, reading it raises
  \<^verbatim>\<open>UnboundLocalError\<close>, a \<^verbatim>\<open>NameError\<close>). When the loop is exhausted a plain \<^verbatim>\<open>Exception\<close>
  is raised. The result records the outcome, the number of calls of \<^verbatim>\<open>requests.get\<close> and the
  seconds slept.
\<close>

fun springer_fetch_data_loop ::
  "(nat \<Rightarrow> exc + response) \<Rightarrow> nat list \<Rightarrow> response option \<Rightarrow> nat list \<Rightarrow> pyval retry_result" where
  "springer_fetch_data_loop requests_get [] response slept =
     \<lparr>outcome = Inl (PlainException (''Falha na consulta ap'' @ [CHR 0xF3]
                   @ ''s 3 tentativas devido a timeout ou outros erros.'')),
      attempts = 3, sleeps = slept\<rparr>"
| "springer_fetch_data_loop requests_get (attempt # rest) response slept =
     (case requests_get (attempt + 1) of
        Inr r \<Rightarrow>
          (case raise_for_status r of
             Inr u \<Rightarrow> \<lparr>outcome = Inr (resp_json r), attempts = attempt + 1, sleeps = slept\<rparr>
           | Inl e \<Rightarrow>
               if status_code r = 503 \<or> status_code r = 504
               then springer_fetch_data_loop requests_get rest (Some r)
                      (slept @ [10 * (attempt + 1)])
               else \<lparr>outcome = Inl e, attempts = attempt + 1, sleeps = slept\<rparr>)
      | Inl (HTTPError status) \<Rightarrow>
          (case response of
             None \<Rightarrow> \<lparr>outcome = Inl (NameError ''response''), attempts = attempt + 1,
                       sleeps = slept\<rparr>
           | Some r \<Rightarrow>
               if status_code r = 503 \<or> status_code r = 504
               then springer_fetch_data_loop requests_get rest response
                      (slept @ [10 * (attempt + 1)])
               else \<lparr>outcome = Inl (HTTPError status), attempts = attempt + 1,
                      sleeps = slept\<rparr>)
      | Inl e \<Rightarrow>
          if is_RequestException e
          then springer_fetch_data_loop requests_get rest response (slept @ [10 * (attempt + 1)])
          else \<lparr>outcome = Inl e, attempts = attempt + 1, sleeps = slept\<rparr>)"

definition springer_fetch_data :: "(nat \<Rightarrow> exc + response) \<Rightarrow> pyval retry_result" where
  "springer_fetch_data requests_get = springer_fetch_data_loop requests_get [0, 1, 2] None []"

text \<open>
  \<^verbatim>\<open>sub in x\<close> for a string \<open>sub\<close>: a substring test on a string, membership in a list,
  a key test on a dictionary, \<^verbatim>\<open>TypeError\<close> on anything else.
\<close>

fun py_contains :: "string \<Rightarrow> pyval \<Rightarrow> exc + bool" where
  "py_contains sub (PStr s) = Inr (sublist sub s)"
| "py_contains sub (PList xs) = Inr (PStr sub \<in> set xs)"
| "py_contains sub (PDict d) = Inr (map_of d sub \<noteq> None)"
| "py_contains sub v = Inl TypeError"

fun py_strip :: "pyval \<Rightarrow> exc + string" where
  "py_strip (PStr s) = Inr (strip s)"
| "py_strip v = Inl AttributeError"

definition springer_sobrenome :: "pyval \<Rightarrow> exc + string" where
  "springer_sobrenome creator =
     and_then (py_get creator ''creator'' (PStr [])) (\<lambda>nome_completo.
     and_then (py_contains '','' nome_completo) (\<lambda>has_comma.
       if has_comma then
         and_then (py_split nome_completo CHR '','') (\<lambda>parts. Inr (strip (hd parts)))
       else py_strip nome_completo))"

definition springer_format_authors_year :: "pyval \<Rightarrow> pyval \<Rightarrow> exc + string" where
  "springer_format_authors_year creators publication_date =
     and_then (if truthy publication_date
               then and_then (py_split publication_date CHR ''-'') (\<lambda>parts. Inr (hd parts))
               else Inr []) (\<lambda>year.
     and_then (py_iter creators) (\<lambda>cs.
     and_then (for_each springer_sobrenome cs) (\<lambda>surnames.
       case surnames of
         [] \<Rightarrow> Inr year
       | [s1] \<Rightarrow> Inr (s1 @ '' '' @ year)
       | [s1, s2] \<Rightarrow> Inr (s1 @ '' and '' @ s2 @ '' '' @ year)
       | s1 # others \<Rightarrow> Inr (s1 @ '' et al. '' @ year))))"

definition springer_download_url :: "pyval \<Rightarrow> exc + pyval" where
  "springer_download_url url_list =
     (case url_list of
        PList (u # us) \<Rightarrow>
          and_then (py_contains ''value'' u) (\<lambda>has_value.
            if has_value then py_get u ''value'' PNone else Inr (PStr ''N/A''))
      | _ \<Rightarrow> Inr (PStr ''N/A''))"

definition springer_record :: "dict \<Rightarrow> exc + dict" where
  "springer_record rec =
     (let creators = dict_get rec ''creators'' (PList []) in
      and_then (if truthy creators then
                  and_then (py_iter creators) (\<lambda>cs.
                  and_then (for_each (\<lambda>creator. py_get creator ''creator'' (PStr [])) cs)
                    (py_join '', ''))
                else Inr ''N/A'') (\<lambda>authors_str.
      let pub_date = dict_get rec ''publicationDate'' (PStr ''N/A'') in
      and_then (if pub_date \<noteq> PStr ''N/A'' then springer_format_authors_year creators pub_date
                else Inr ''N/A'') (\<lambda>authors_year.
      and_then (if pub_date \<noteq> PStr ''N/A'' then
                  and_then (py_contains ''-'' pub_date) (\<lambda>has_dash.
                    if has_dash then
                      and_then (py_split pub_date CHR ''-'') (\<lambda>parts. Inr (hd parts))
                    else Inr ''N/A'')
                else Inr ''N/A'') (\<lambda>publication_year.
      let url_list = dict_get rec ''url'' (PList []) in
      and_then (springer_download_url url_list) (\<lambda>download_url.
      let openaccess = dict_get rec ''openaccess'' (PStr ''false'');
          is_oa = (lower (py_format openaccess) = ''true'')
      in
      Inr (padroniza_registro
        [(''ID'', dict_get rec ''doi'' (PStr ''N/A'')),
         (''Authors'', PStr authors_str),
         (''Authors Year'', PStr authors_year),
         (''Title'', dict_get rec ''title'' (PStr ''N/A'')),
         (''Journal'', dict_get rec ''publicationName'' (PStr ''N/A'')),
         (''Publication Year'', PStr publication_year),
         (''Publication Date'', pub_date),
         (''Abstract'', dict_get rec ''abstract'' (PStr ''N/A'')),
         (''DOI'', dict_get rec ''doi'' (PStr ''N/A'')),
         (''Language'', dict_get rec ''language'' (PStr ''N/A'')),
         (''Is Accepted'', PStr ''N/A''),
         (''Is Published'', PStr ''N/A''),
         (''Type'', dict_get rec ''contentType'' (PStr ''N/A'')),
         (''Type Crossref'', dict_get rec ''contentType'' (PStr ''N/A'')),
         (''Indexed In'', PStr ''SpringerNature''),
         (''Is Open Access'', PStr (if is_oa then ''Yes'' else ''No'')),
         (''OA Status'', PStr ''N/A''),
         (''Download URL'', download_url),
         (''Cited By Count'', PStr ''N/A''),
         (''API'', PStr ''springernature'')]))))))"

text \<open>A record that is not a JSON object has no \<^verbatim>\<open>get\<close>.\<close>

fun springer_registro :: "pyval \<Rightarrow> exc + dict" where
  "springer_registro (PDict rec) = springer_record rec"
| "springer_registro v = Inl AttributeError"

definition springer_process_data :: "pyval \<Rightarrow> exc + dict list" where
  "springer_process_data data =
     and_then (py_get data ''records'' (PList [])) (\<lambda>records.
     and_then (py_iter records) (for_each springer_registro))"

section \<open>The Crossref adapter (\<^verbatim>\<open>clients/crossref.py\<close>)\<close>

text \<open>
  The block of \<^verbatim>\<open>process_data\<close> that infers open access (lines 144 to 150): the pair
  \<^verbatim>\<open>(is_oa, oa_status)\<close>.
\<close>

definition crossref_open_access :: "dict \<Rightarrow> string \<times> string" where
  "crossref_open_access item =
     (case dict_get item ''license'' (PList []) of
        PList (l # ls) \<Rightarrow> (''Yes'', ''License available'')
      | _ \<Rightarrow> (''N/A'', ''N/A''))"

text \<open>
  The block of \<^verbatim>\<open>process_data\<close> that cleans the abstract (lines 123 to 137).

  \<open>strip_tags\<close> is \<^verbatim>\<open>re.sub(r'<[^>]+>', '', s)\<close>: scanning from the left, a \<^verbatim>\<open><\<close> followed by
  at least one character other than \<^verbatim>\<open>>\<close> and then by a \<^verbatim>\<open>>\<close> is removed up to that \<^verbatim>\<open>>\<close>.
  \<open>sub_ws\<close> is \<^verbatim>\<open>re.sub(r'\s+', ' ', s)\<close>: each maximal run of whitespace becomes one
  space.
\<close>

function strip_tags :: "string \<Rightarrow> string" where
  "strip_tags [] = []"
| "strip_tags (c # cs) =
     (if c = CHR ''<'' \<and> takeWhile (\<lambda>x. x \<noteq> CHR ''>'') cs \<noteq> []
          \<and> dropWhile (\<lambda>x. x \<noteq> CHR ''>'') cs \<noteq> []
      then strip_tags (tl (dropWhile (\<lambda>x. x \<noteq> CHR ''>'') cs))
      else c # strip_tags cs)"
  by pat_completeness auto
termination
proof (relation "measure length")
  show "wf (measure length)" by simp
next
  fix c :: char and cs :: string
  have "length (tl (dropWhile (\<lambda>x. x \<noteq> CHR ''>'') cs)) \<le> length cs"
    using length_dropWhile_le [of "\<lambda>x. x \<noteq> CHR ''>''" cs] by simp
  then show "(tl (dropWhile (\<lambda>x. x \<noteq> CHR ''>'') cs), c # cs) \<in> measure length" by simp
next
  fix c :: char and cs :: string
  show "(cs, c # cs) \<in> measure length" by simp
qed

fun sub_ws :: "string \<Rightarrow> string" where
  "sub_ws [] = []"
| "sub_ws [c] = (if isspace c then '' '' else [c])"
| "sub_ws (c # d # cs) =
     (if isspace c then (if isspace d then sub_ws (d # cs) else CHR '' '' # sub_ws (d # cs))
      else c # sub_ws (d # cs))"

text \<open>
  \<^verbatim>\<open>html.unescape\<close> belongs to the standard library. Its first line is
  \<^verbatim>\<open>if '&' not in s: return s\<close>; the substitution of the character references that follows
  is the parameter \<open>charref\<close>. \<open>charref_xml\<close> is that substitution for text whose
  references are among \<^verbatim>\<open>&lt; &gt; &amp; &quot; &#39;\<close>, each with its semicolon.
\<close>

definition html_unescape :: "(string \<Rightarrow> string) \<Rightarrow> string \<Rightarrow> string" where
  "html_unescape charref s = (if CHR ''&'' \<notin> set s then s else charref s)"

fun charref_xml :: "string \<Rightarrow> string" where
  "charref_xml [] = []"
| "charref_xml (c # cs) =
     (if c = CHR ''&'' \<and> prefix ''lt;'' cs then CHR ''<'' # charref_xml (drop 3 cs)
      else if c = CHR ''&'' \<and> prefix ''gt;'' cs then CHR ''>'' # charref_xml (drop 3 cs)
      else if c = CHR ''&'' \<and> prefix ''amp;'' cs then CHR ''&'' # charref_xml (drop 4 cs)
      else if c = CHR ''&'' \<and> prefix ''quot;'' cs then CHR 0x22 # charref_xml (drop 5 cs)
      else if c = CHR ''&'' \<and> prefix ''#39;'' cs then CHR 0x27 # charref_xml (drop 4 cs)
      else c # charref_xml cs)"

definition crossref_clean_abstract :: "(string \<Rightarrow> string) \<Rightarrow> pyval \<Rightarrow> string" where
  "crossref_clean_abstract charref raw_abstract =
     (case raw_abstract of
        PStr raw \<Rightarrow>
          if strip raw \<noteq> [] \<and> upper (strip raw) \<noteq> ''N/A''
          then strip (sub_ws (html_unescape charref (strip_tags raw)))
          else ''N/A''
      | _ \<Rightarrow> ''N/A'')"

text \<open>
  Two properties of a text, used to say what a clean abstract is: its whitespace is
  single spaces (\<open>single_spaced\<close>), and it neither starts nor ends with whitespace
  (\<open>trimmed\<close>).
\<close>

fun single_spaced :: "string \<Rightarrow> bool" where
  "single_spaced [] = True"
| "single_spaced [c] = (isspace c \<longrightarrow> c = CHR '' '')"
| "single_spaced (c # d # cs) =
     ((isspace c \<longrightarrow> c = CHR '' '' \<and> \<not> isspace d) \<and> single_spaced (d # cs))"

definition trimmed :: "string \<Rightarrow> bool" where
  "trimmed s \<longleftrightarrow> s = [] \<or> (\<not> isspace (hd s) \<and> \<not> isspace (last s))"

text \<open>
  The rest of \<^verbatim>\<open>process_data\<close>. \<open>py_first\<close> is \<^verbatim>\<open>x[0]\<close>, \<open>py_len\<close> is \<^verbatim>\<open>len(x)\<close>.
\<close>

fun py_first :: "pyval \<Rightarrow> exc + pyval" where
  "py_first (PList (x # xs)) = Inr x"
| "py_first (PList []) = Inl IndexError"
| "py_first (PStr (c # cs)) = Inr (PStr [c])"
| "py_first (PStr []) = Inl IndexError"
| "py_first (PDict d) = Inl (KeyError ''0'')"
| "py_first v = Inl TypeError"

fun py_len :: "pyval \<Rightarrow> exc + nat" where
  "py_len (PList xs) = Inr (length xs)"
| "py_len (PStr s) = Inr (length s)"
| "py_len (PDict d) = Inr (length d)"
| "py_len v = Inl TypeError"

definition crossref_first_or_na :: "pyval \<Rightarrow> exc + pyval" where
  "crossref_first_or_na xs = (if truthy xs then py_first xs else Inr (PStr ''N/A''))"

definition crossref_issued :: "dict \<Rightarrow> exc + string \<times> string" where
  "crossref_issued item =
     and_then (py_get (dict_get item ''issued'' (PDict [])) ''date-parts'' (PList [])) (\<lambda>issued.
       if \<not> truthy issued then Inr (''N/A'', ''N/A'')
       else and_then (py_len issued) (\<lambda>n.
            if \<not> n > 0 then Inr (''N/A'', ''N/A'')
            else and_then (py_first issued) (\<lambda>first_parts.
                 and_then (py_len first_parts) (\<lambda>m.
                 if \<not> m > 0 then Inr (''N/A'', ''N/A'')
                 else and_then (py_first first_parts) (\<lambda>y.
                      and_then (py_iter first_parts) (\<lambda>parts.
                      Inr (py_format y, join ''-'' (map py_format parts))))))))"

definition crossref_full_names :: "pyval \<Rightarrow> exc + string list" where
  "crossref_full_names authors_data =
     and_then (py_iter authors_data) (\<lambda>authors.
     and_then (for_each (\<lambda>author.
                 and_then (py_get author ''given'' (PStr [])) (\<lambda>given.
                 and_then (py_get author ''family'' (PStr [])) (\<lambda>family.
                 Inr (strip (py_format given @ '' '' @ py_format family))))) authors)
       (\<lambda>full_names. Inr (filter (\<lambda>full_name. full_name \<noteq> []) full_names)))"

definition crossref_format_authors_year :: "pyval \<Rightarrow> string \<Rightarrow> exc + string" where
  "crossref_format_authors_year authors_data pub_year =
     (if \<not> truthy authors_data then Inr (''Unknown '' @ pub_year)
      else and_then (crossref_full_names authors_data) (\<lambda>names.
        case names of
          [] \<Rightarrow> Inr pub_year
        | [n1] \<Rightarrow> and_then (last_word n1) (\<lambda>last_name. Inr (last_name @ '' '' @ pub_year))
        | [n1, n2] \<Rightarrow>
            and_then (last_word n1) (\<lambda>last_name1.
            and_then (last_word n2) (\<lambda>last_name2.
            Inr (last_name1 @ '' and '' @ last_name2 @ '' '' @ pub_year)))
        | n1 # others \<Rightarrow>
            and_then (last_word n1) (\<lambda>last_name. Inr (last_name @ '' et al. '' @ pub_year))))"

definition crossref_registro :: "(string \<Rightarrow> string) \<Rightarrow> dict \<Rightarrow> exc + dict" where
  "crossref_registro charref item =
     (let doi = dict_get item ''DOI'' (PStr ''N/A'') in
      and_then (crossref_first_or_na (dict_get item ''title'' (PList []))) (\<lambda>title.
      and_then (crossref_first_or_na (dict_get item ''container-title'' (PList []))) (\<lambda>journal.
      and_then (crossref_issued item) (\<lambda>(pub_year, pub_date).
      let authors_data = dict_get item ''author'' (PList []) in
      and_then (if truthy authors_data then crossref_full_names authors_data else Inr [])
        (\<lambda>authors_list.
      let authors = (if authors_list \<noteq> [] then join '', '' authors_list else ''N/A'') in
      and_then (crossref_format_authors_year authors_data pub_year) (\<lambda>authors_year.
      let abstract = crossref_clean_abstract charref (dict_get item ''abstract'' (PStr []));
          language = dict_get item ''language'' (PStr ''N/A'');
          is_published = (if pub_date \<noteq> ''N/A'' then ''Yes'' else ''No'');
          type_val = dict_get item ''type'' (PStr ''N/A'');
          (is_oa, oa_status) = crossref_open_access item;
          download_url = dict_get item ''URL'' (PStr ''N/A'');
          cited_by_count = dict_get item ''is-referenced-by-count'' (PStr ''N/A'')
      in
      Inr (padroniza_registro
        [(''ID'', doi),
         (''Authors'', PStr authors),
         (''Authors Year'', PStr authors_year),
         (''Title'', title),
         (''Journal'', journal),
         (''Publication Year'', PStr pub_year),
         (''Publication Date'', PStr pub_date),
         (''Abstract'', PStr abstract),
         (''DOI'', doi),
         (''Language'', language),
         (''Is Accepted'', PStr ''N/A''),
         (''Is Published'', PStr is_published),
         (''Type'', type_val),
         (''Type Crossref'', type_val),
         (''Indexed In'', PStr ''Crossref''),
         (''Is Open Access'', PStr is_oa),
         (''OA Status'', PStr oa_status),
         (''Download URL'', download_url),
         (''Cited By Count'', cited_by_count),
         (''API'', PStr ''crossref'')])))))))"

fun crossref_item :: "(string \<Rightarrow> string) \<Rightarrow> pyval \<Rightarrow> exc + dict" where
  "crossref_item charref (PDict item) = crossref_registro charref item"
| "crossref_item charref v = Inl AttributeError"

definition crossref_process_data :: "(string \<Rightarrow> string) \<Rightarrow> pyval \<Rightarrow> exc + dict list" where
  "crossref_process_data charref data =
     and_then (py_get data ''message'' (PDict [])) (\<lambda>message.
     and_then (py_get message ''items'' (PList [])) (\<lambda>items.
     and_then (py_iter items) (for_each (crossref_item charref))))"

text \<open>
  \<^verbatim>\<open>run_pipeline(query, max_records, ...)\<close> of an instance made with \<^verbatim>\<open>rows\<close>. \<^verbatim>\<open>fetch_data\<close>
  is not retried (the decorator is commented out): an exception of the request ends the
  run. \<open>requests_get n offset\<close> is what \<^verbatim>\<open>requests.get\<close> does at the \<open>n\<close>-th request, made
  with that offset. The limit \<^verbatim>\<open>max_records\<close> is \<^verbatim>\<open>None\<close> or an integer, and counts only when
  it is truthy; \<open>slice_to\<close> is \<^verbatim>\<open>xs[:m]\<close>. The loop may run forever (\<open>None\<close>).
\<close>

definition crossref_fetch_data :: "exc + response \<Rightarrow> exc + pyval" where
  "crossref_fetch_data got =
     (case got of
        Inl e \<Rightarrow> Inl e
      | Inr r \<Rightarrow> (case raise_for_status r of Inl e \<Rightarrow> Inl e | Inr u \<Rightarrow> Inr (resp_json r)))"

definition slice_to :: "'a list \<Rightarrow> int \<Rightarrow> 'a list" where
  "slice_to xs m = (if m \<ge> 0 then take (nat m) xs else take (length xs - nat (- m)) xs)"

fun int_ge :: "int \<Rightarrow> pyval \<Rightarrow> exc + bool" where
  "int_ge i (PInt j) = Inr (i \<ge> j)"
| "int_ge i (PBool b) = Inr (i \<ge> (if b then 1 else 0))"
| "int_ge i v = Inl TypeError"

partial_function (option) crossref_loop ::
  "(string \<Rightarrow> string) \<Rightarrow> (nat \<Rightarrow> int \<Rightarrow> exc + response) \<Rightarrow> int \<Rightarrow> int option \<Rightarrow> nat \<Rightarrow> int
     \<Rightarrow> dict list \<Rightarrow> (exc + dict list) option" where
  "crossref_loop charref requests_get rows max_records n offset all_records =
     (case crossref_fetch_data (requests_get n offset) of
        Inl e \<Rightarrow> Some (Inl e)
      | Inr data \<Rightarrow>
          (case crossref_process_data charref data of
             Inl e \<Rightarrow> Some (Inl e)
           | Inr records \<Rightarrow>
               if records = [] then Some (Inr all_records)
               else if max_records \<noteq> None \<and> max_records \<noteq> Some 0
                       \<and> int (length (all_records @ records)) \<ge> the max_records
               then Some (Inr (slice_to (all_records @ records) (the max_records)))
               else (case and_then (py_get data ''message'' (PDict []))
                            (\<lambda>message. py_get message ''total-results'' (PInt 0)) of
                       Inl e \<Rightarrow> Some (Inl e)
                     | Inr total_results \<Rightarrow>
                         (case int_ge (offset + rows) total_results of
                            Inl e \<Rightarrow> Some (Inl e)
                          | Inr reached \<Rightarrow>
                              if reached then Some (Inr (all_records @ records))
                              else crossref_loop charref requests_get rows max_records (n + 1)
                                     (offset + rows) (all_records @ records)))))"

definition crossref_run_pipeline ::
  "(string \<Rightarrow> string) \<Rightarrow> (nat \<Rightarrow> int \<Rightarrow> exc + response) \<Rightarrow> int \<Rightarrow> int option
     \<Rightarrow> (exc + frame) option" where
  "crossref_run_pipeline charref requests_get rows max_records =
     map_option (map_sum id DataFrame)
       (crossref_loop charref requests_get rows max_records 0 0 [])"

text \<open>An example: every request is answered by one page of two items without fields.\<close>

definition ex_crossref :: "nat \<Rightarrow> int \<Rightarrow> exc + response" where
  "ex_crossref n offset =
     Inr \<lparr>status_code = 200, resp_text = [],
          resp_json = PDict [(''message'',
                       PDict [(''items'', PList [PDict [], PDict []]),
                              (''total-results'', PInt 2)])]\<rparr>"

section \<open>The Scopus adapter (\<^verbatim>\<open>clients/scopus.py\<close>)\<close>

text \<open>The body of the loop over the entries of a page: one record.\<close>

definition scopus_registro :: "pyval \<Rightarrow> exc + dict" where
  "scopus_registro result =
     and_then (py_get result ''dc:title'' (PStr ''N/A'')) (\<lambda>title.
     and_then (py_get result ''dc:creator'' (PStr ''N/A'')) (\<lambda>authors.
     and_then (py_get result ''prism:coverDate'' (PStr ''N/A'')) (\<lambda>cover_date.
     and_then (if cover_date \<noteq> PStr ''N/A''
               then and_then (py_split cover_date CHR ''-'') (\<lambda>parts. Inr (hd parts))
               else Inr ''N/A'') (\<lambda>publication_year.
     and_then (py_get result ''prism:doi'' (PStr ''N/A'')) (\<lambda>doi.
     and_then (py_get result ''prism:publicationName'' (PStr ''N/A'')) (\<lambda>journal.
     and_then (py_get result ''eid'' (PStr ''N/A'')) (\<lambda>eid.
     and_then (py_get result ''dc:description'' (PStr ''N/A'')) (\<lambda>abstract.
     and_then (py_get result ''citedby-count'' (PStr ''N/A'')) (\<lambda>cited_by_count.
     and_then (if authors \<noteq> PStr ''N/A''
               then and_then (py_split authors CHR '','') (\<lambda>parts. Inr (strip (hd parts)))
               else Inr ''unknown'') (\<lambda>first_author.
     let authors_year = first_author @ '' '' @ publication_year;
         is_published = (if journal \<noteq> PStr ''N/A'' then ''Yes'' else ''No'')
     in
     Inr (padroniza_registro
       [(''ID'', eid),
        (''Authors'', authors),
        (''Authors Year'', PStr authors_year),
        (''Title'', title),
        (''Journal'', journal),
        (''Publication Year'', PStr publication_year),
        (''Publication Date'', cover_date),
        (''Abstract'', abstract),
        (''DOI'', doi),
        (''Language'', PStr ''N/A''),
        (''Is Accepted'', PStr ''N/A''),
        (''Is Published'', PStr is_published),
        (''Type'', PStr ''Scopus''),
        (''Type Crossref'', PStr ''N/A''),
        (''Indexed In'', PStr ''Scopus''),
        (''Is Open Access'', PStr ''N/A''),
        (''OA Status'', PStr ''N/A''),
        (''Download URL'', PStr ''N/A''),
        (''Cited By Count'', cited_by_count),
        (''API'', PStr ''scopus'')])))))))))))"

text \<open>
  \<^verbatim>\<open>fetch_references(query, count, date_research)\<close>. The network is the environment:
  \<open>requests_get n start k\<close> is what \<^verbatim>\<open>requests.get\<close> does at the \<open>k\<close>-th attempt of the
  \<open>n\<close>-th page request, made with offset \<open>start\<close> (the request does not carry \<^verbatim>\<open>count\<close>:
  that parameter is commented out in \<^verbatim>\<open>_fetch_scopus_page\<close>). Any exception of the page
  request ends the loop with what was collected; an exception while the entries are read
  is not caught. The loop may run forever (\<open>None\<close>).
\<close>

partial_function (option) scopus_loop ::
  "(nat \<Rightarrow> int \<Rightarrow> nat \<Rightarrow> exc + response) \<Rightarrow> int \<Rightarrow> nat \<Rightarrow> int \<Rightarrow> dict list
     \<Rightarrow> (exc + dict list) option" where
  "scopus_loop requests_get count n start all_articles =
     (case outcome (fetch_scopus_page (requests_get n start)) of
        Inl e \<Rightarrow> Some (Inr all_articles)
      | Inr data \<Rightarrow>
          (case and_then (py_get data ''search-results'' (PDict []))
                  (\<lambda>results. py_get results ''entry'' (PList [])) of
             Inl e \<Rightarrow> Some (Inl e)
           | Inr entries \<Rightarrow>
               if \<not> truthy entries then Some (Inr all_articles)
               else (case and_then (py_iter entries) (for_each scopus_registro) of
                       Inl e \<Rightarrow> Some (Inl e)
                     | Inr registros \<Rightarrow>
                         if int (length registros) \<le> count
                         then Some (Inr (all_articles @ registros))
                         else scopus_loop requests_get count (n + 1) (start + count)
                                (all_articles @ registros))))"

definition scopus_fetch_references ::
  "(nat \<Rightarrow> int \<Rightarrow> nat \<Rightarrow> exc + response) \<Rightarrow> int \<Rightarrow> (exc + frame) option" where
  "scopus_fetch_references requests_get count =
     map_option (map_sum id DataFrame) (scopus_loop requests_get count 0 0 [])"

text \<open>
  A Scopus that knows two documents for the query and answers every request with status
  200 and all the documents from the offset on (its page size, 25, is larger than two).
\<close>

definition ex_scopus_entries :: "pyval list" where
  "ex_scopus_entries =
     [PDict [(''eid'', PStr ''2-s2.0-1''), (''dc:title'', PStr ''First'')],
      PDict [(''eid'', PStr ''2-s2.0-2''), (''dc:title'', PStr ''Second'')]]"

definition ex_scopus :: "nat \<Rightarrow> int \<Rightarrow> nat \<Rightarrow> exc + response" where
  "ex_scopus n start k =
     Inr \<lparr>status_code = 200, resp_text = [],
          resp_json = PDict [(''search-results'',
                       PDict [(''entry'', PList (drop (nat start) ex_scopus_entries))])]\<rparr>"

section \<open>Semantic pretriage (\<^verbatim>\<open>pretriage.py\<close>)\<close>

text \<open>
  The embedding service and the similarity are the environment: \<open>embedding_create\<close> answers a list
  of texts with their embeddings, \<open>sim t k\<close> is the cosine similarity of two embeddings (a
  real number here). \<^verbatim>\<open>_create_embeddings\<close> sends \<^verbatim>\<open>inputs_list[:500]\<close> and returns
  \<^verbatim>\<open>resp.data\<close>. \<open>max_similarity\<close> is one entry of
  \<^verbatim>\<open>cosine_similarity(txt_emb, keys_emb).max(axis=1)\<close>. The arrays of embeddings are taken
  to be non-empty (there is at least one record, and the service answers with at least
  one embedding): on an empty array \<^verbatim>\<open>cosine_similarity\<close> raises \<^verbatim>\<open>ValueError\<close>.
\<close>

definition create_embeddings :: "(string list \<Rightarrow> 'e list) \<Rightarrow> string list \<Rightarrow> 'e list" where
  "create_embeddings embedding_create inputs_list = embedding_create (take 500 inputs_list)"

definition max_similarity :: "('e \<Rightarrow> 'e \<Rightarrow> real) \<Rightarrow> 'e list \<Rightarrow> 'e \<Rightarrow> real" where
  "max_similarity sim keys_emb t = foldl max (sim t (hd keys_emb)) (map (sim t) (tl keys_emb))"

definition record_text :: "dict \<Rightarrow> string" where
  "record_text rec =
     (let t = dict_get rec ''Title'' (PStr []);
          title = (if truthy t then t else PStr []);
          a = dict_get rec ''Abstract'' (PStr []);
          abstract = (if truthy a then a else PStr [])
      in py_format title @ '' '' @ py_format abstract)"

text \<open>
  A record with the two scores written into it, and the two ways the function returns:
  the records as they came (no inclusion key), or the scored records that passed.
\<close>

record scored =
  row_of :: dict
  score_inclusion :: real
  score_exclusion :: real

datatype pretriage_result = Unchanged "dict list" | Filtered "scored list"

definition pretriage_records ::
  "string option \<Rightarrow> (string list \<Rightarrow> 'e list) \<Rightarrow> ('e \<Rightarrow> 'e \<Rightarrow> real) \<Rightarrow> dict list \<Rightarrow> string list
     \<Rightarrow> string list \<Rightarrow> real \<Rightarrow> real \<Rightarrow> exc + pretriage_result" where
  "pretriage_records api_key embedding_create sim records inclusion_keys exclusion_keys
       incl_threshold excl_threshold =
     (if inclusion_keys = [] then Inr (Unchanged records)
      else if api_key = None \<or> api_key = Some []
      then Inl (RuntimeError ''OPENAI_API_KEY'')
      else
        let texts = map record_text records;
            incl_emb = create_embeddings embedding_create inclusion_keys;
            excl_emb = (if exclusion_keys \<noteq> []
                        then Some (create_embeddings embedding_create exclusion_keys) else None);
            txt_emb = create_embeddings embedding_create texts;
            sim_incl = map (max_similarity sim incl_emb) txt_emb;
            sim_excl = (case excl_emb of
                          Some ks \<Rightarrow> map (max_similarity sim ks) txt_emb
                        | None \<Rightarrow> map (\<lambda>x. 0) sim_incl)
        in Inr (Filtered
             (map (\<lambda>(rec, score_i, score_e).
                     \<lparr>row_of = rec, score_inclusion = score_i, score_exclusion = score_e\<rparr>)
                (filter (\<lambda>(rec, score_i, score_e).
                           score_i \<ge> incl_threshold \<and> score_e \<le> excl_threshold)
                   (zip records (zip sim_incl sim_excl))))))"

section \<open>Theorems\<close>

lemma retrying_third:
  "retrying fn 3 s = \<lparr>outcome = fn 3, attempts = 3, sleeps = s\<rparr>"
  by (subst retrying.simps) (simp add: stop_after_attempt_def Let_def)

lemma retrying_second:
  "retrying fn 2 s =
     (if \<not> retry_if_exception_type (fn 2)
      then \<lparr>outcome = fn 2, attempts = 2, sleeps = s\<rparr>
      else \<lparr>outcome = fn 3, attempts = 3, sleeps = s @ [2]\<rparr>)"
  by (subst retrying.simps)
     (simp add: stop_after_attempt_def wait_exponential_def Let_def retrying_third)

lemma retrying_first:
  "retrying fn 1 s =
     (if \<not> retry_if_exception_type (fn 1)
      then \<lparr>outcome = fn 1, attempts = 1, sleeps = s\<rparr>
      else if \<not> retry_if_exception_type (fn 2)
      then \<lparr>outcome = fn 2, attempts = 2, sleeps = s @ [1]\<rparr>
      else \<lparr>outcome = fn 3, attempts = 3, sleeps = s @ [1, 2]\<rparr>)"
  by (subst retrying.simps)
     (simp add: stop_after_attempt_def wait_exponential_def Let_def retrying_second
        del: One_nat_def)

text \<open>
  What the policy does. It calls the wrapped function at most three times. It calls
  again exactly when the call raised a \<^verbatim>\<open>RequestException\<close> (an \<open>HTTPError\<close> of any
  status included), sleeping 1 and then 2 seconds; it returns the first outcome that is
  not such an exception, and after the third call it returns that call's outcome,
  re-raising its error as it is. An exception of another class is never retried.
\<close>

lemma retry_on_fail_policy:
  "retry_on_fail fn =
     (if \<not> retry_if_exception_type (fn 1)
      then \<lparr>outcome = fn 1, attempts = 1, sleeps = []\<rparr>
      else if \<not> retry_if_exception_type (fn 2)
      then \<lparr>outcome = fn 2, attempts = 2, sleeps = [1]\<rparr>
      else \<lparr>outcome = fn 3, attempts = 3, sleeps = [1, 2]\<rparr>)
   \<and> retry_if_exception_type (Inl ConnectionError :: exc + 'a)
   \<and> retry_if_exception_type (Inl Timeout :: exc + 'a)
   \<and> retry_if_exception_type (Inl (HTTPError status) :: exc + 'a)
   \<and> \<not> retry_if_exception_type (Inl (PlainException msg) :: exc + 'a)
   \<and> \<not> retry_if_exception_type (Inr result :: exc + 'a)"
  by (simp add: retry_on_fail_def retrying_first del: One_nat_def)

lemma retry_on_fail_timeout:
  "retry_on_fail (\<lambda>n. Inl Timeout :: exc + pyval)
     = \<lparr>outcome = Inl Timeout, attempts = 3, sleeps = [1, 2]\<rparr>"
  using retry_on_fail_policy [of "\<lambda>n. Inl Timeout :: exc + pyval"]
  by (simp del: One_nat_def)

text \<open>
  The retry loop that SpringerNature \<^verbatim>\<open>fetch_data\<close> writes out by hand decides by the
  status: a request answered 401 every time is made once and the \<open>HTTPError\<close> raised at
  once, a request answered 503 every time is made three times.
\<close>

lemma springer_fetch_data_by_status:
  "springer_fetch_data
     (\<lambda>n. Inr \<lparr>status_code = 401, resp_text = ''Unauthorized'', resp_json = PNone\<rparr>)
     = \<lparr>outcome = Inl (HTTPError 401), attempts = 1, sleeps = []\<rparr>
   \<and> attempts (springer_fetch_data
        (\<lambda>n. Inr \<lparr>status_code = 503, resp_text = ''Service Unavailable'', resp_json = PNone\<rparr>))
     = 3"
  by (simp add: springer_fetch_data_def raise_for_status_def)

text \<open>
  C1 fails in the code. A transient failure should be tried three times and a client
  error such as 401 raised at once. PLOS \<^verbatim>\<open>fetch_data\<close> answered 401 every time is called
  three times, not once, because \<^verbatim>\<open>raise_for_status\<close> raises an \<open>HTTPError\<close>, which is a
  \<^verbatim>\<open>RequestException\<close>. And Scopus \<^verbatim>\<open>_fetch_scopus_page\<close> answered 503, a transient
  failure, is called once only, because it raises a plain \<^verbatim>\<open>Exception\<close>.
\<close>

theorem retry_on_fail_401_retried_503_not:
  "plos_fetch_data (\<lambda>n. Inr \<lparr>status_code = 401, resp_text = ''Unauthorized'', resp_json = PNone\<rparr>)
     = \<lparr>outcome = Inl (HTTPError 401), attempts = 3, sleeps = [1, 2]\<rparr>
   \<and> attempts (fetch_scopus_page
        (\<lambda>n. Inr \<lparr>status_code = 503, resp_text = ''Service Unavailable'', resp_json = PNone\<rparr>))
     = 1"
  by (simp add: plos_fetch_data_def fetch_scopus_page_def retry_on_fail_def
        plos_fetch_data_call_def fetch_scopus_page_call_def raise_for_status_def retrying_first
      del: One_nat_def)

subsection \<open>Records, frames and duplicates\<close>

lemma map_of_fill_column:
  "map_of (fill_column r c) k =
     (if k = c \<and> map_of r c = None then Some (PStr ''N/A'') else map_of r k)"
  by (auto simp: fill_column_def map_add_def split: option.splits)

lemma map_of_foldl_fill_column:
  "map_of (foldl fill_column r cols) k =
     (if k \<in> set cols \<and> map_of r k = None then Some (PStr ''N/A'') else map_of r k)"
  by (induction cols arbitrary: r) (auto simp: map_of_fill_column)

lemma map_of_padroniza_registro:
  "map_of (padroniza_registro r) k =
     (if k \<in> set STANDARD_COLUMNS \<and> map_of r k = None then Some (PStr ''N/A'') else map_of r k)"
  by (simp add: padroniza_registro_def map_of_foldl_fill_column)

lemma cell_padroniza_registro:
  "cell (padroniza_registro r) k =
     (if k \<in> set STANDARD_COLUMNS \<and> map_of r k = None then PStr ''N/A'' else cell r k)"
  by (simp add: cell_def map_of_padroniza_registro)

lemma map_of_tabulate:
  "map_of (map (\<lambda>c. (c, f c)) cols) k = (if k \<in> set cols then Some (f k) else None)"
  by (induction cols) auto

lemma cell_reindex_row:
  "cell (reindex_row r) k = (if k \<in> set STANDARD_COLUMNS then cell r k else PNaN)"
  by (simp add: reindex_row_def cell_def [of "map f cols" for f cols] map_of_tabulate)

lemma cell_Nil: "cell [] k = PNaN"
  by (simp add: cell_def)

lemma cell_Cons: "cell ((k', v) # r) k = (if k = k' then v else cell r k)"
  by (simp add: cell_def)

lemma DOI_standard: "''DOI'' \<in> set STANDARD_COLUMNS"
  by (simp add: STANDARD_COLUMNS_def)

lemma Title_standard: "''Title'' \<in> set STANDARD_COLUMNS"
  by (simp add: STANDARD_COLUMNS_def)

lemma keep_first_subseq: "subseq (keep_first cols seen rows) rows"
  by (induction rows arbitrary: seen) auto

lemma keep_first_keys:
  "dedup_key cols ` set (keep_first cols seen rows) = dedup_key cols ` set rows - set seen"
  by (induction rows arbitrary: seen) auto

lemma keep_first_distinct: "distinct (map (dedup_key cols) (keep_first cols seen rows))"
proof (induction rows arbitrary: seen)
  case Nil
  show ?case by simp
next
  case (Cons row rows)
  have "dedup_key cols row \<notin> dedup_key cols ` set (keep_first cols (dedup_key cols row # seen) rows)"
    by (simp add: keep_first_keys)
  with Cons show ?case by simp
qed

lemma keep_first_find:
  "find (\<lambda>r. dedup_key cols r = k) (keep_first cols seen rows) =
     (if k \<in> set seen then None else find (\<lambda>r. dedup_key cols r = k) rows)"
proof (induction rows arbitrary: seen)
  case Nil
  show ?case by simp
next
  case (Cons row rows)
  show ?case
  proof (cases "dedup_key cols row \<in> set seen")
    case True
    with Cons show ?thesis by auto
  next
    case False
    with Cons show ?thesis by auto
  qed
qed


lemma search_sources_returned:
  "search_sources A q qry S df_list =
     df_list @ [df. src \<leftarrow> S, src \<in> set known_sources, Inr df \<leftarrow> [try_source A q qry src], df \<noteq> []]"
proof (induction S arbitrary: df_list)
  case Nil
  show ?case by simp
next
  case (Cons src rest)
  show ?case
  proof (cases "src \<in> set known_sources")
    case False
    with Cons show ?thesis by simp
  next
    case True
    show ?thesis
    proof (cases "try_source A q qry src")
      case (Inl e)
      with True Cons show ?thesis by simp
    next
      case (Inr df)
      with True Cons show ?thesis by simp
    qed
  qed
qed

lemma aggregate_returns:
  assumes "\<forall>row \<in> set (concat df_list). hashable (cell row ''DOI'') \<and> hashable (cell row ''Title'')"
  shows "aggregate df_list = Inr (keep_first [''DOI'', ''Title''] [] (concat df_list))"
  using assms by (auto simp: aggregate_def drop_duplicates_def)

text \<open>
  C3 (as amended). Whatever the sources returned, the aggregated output holds no two
  records with the same (DOI, Title) pair, keeps the records in their order of arrival,
  and for every pair that occurs it holds the first record that had it. The sentinel is a
  value like any other: records whose DOI and Title are both "N/A" have the same pair,
  and only the first of them is kept. (The hypothesis: no DOI or Title cell holds a list
  or a dictionary, which pandas cannot hash.)
\<close>

theorem aggregate_first_occurrence:
  assumes "\<forall>row \<in> set (concat df_list). hashable (cell row ''DOI'') \<and> hashable (cell row ''Title'')"
  shows "\<exists>result. aggregate df_list = Inr result
     \<and> distinct (map (dedup_key [''DOI'', ''Title'']) result)
     \<and> subseq result (concat df_list)
     \<and> (\<forall>row \<in> set (concat df_list).
          find (\<lambda>r. dedup_key [''DOI'', ''Title''] r = dedup_key [''DOI'', ''Title''] row) result
          = find (\<lambda>r. dedup_key [''DOI'', ''Title''] r = dedup_key [''DOI'', ''Title''] row) (concat df_list))"
proof -
  let ?result = "keep_first [''DOI'', ''Title''] [] (concat df_list)"
  have "aggregate df_list = Inr ?result" by (rule aggregate_returns [OF assms])
  moreover have "distinct (map (dedup_key [''DOI'', ''Title'']) ?result)" by (rule keep_first_distinct)
  moreover have "subseq ?result (concat df_list)" by (rule keep_first_subseq)
  moreover have "\<forall>row \<in> set (concat df_list).
          find (\<lambda>r. dedup_key [''DOI'', ''Title''] r = dedup_key [''DOI'', ''Title''] row) ?result
          = find (\<lambda>r. dedup_key [''DOI'', ''Title''] r = dedup_key [''DOI'', ''Title''] row) (concat df_list)"
    by (simp add: keep_first_find)
  ultimately show ?thesis by blast
qed

theorem aggregate_first_occurrence_witness:
  "\<exists>result.
     aggregate
       [DataFrame [padroniza_registro [(''ID'', PStr ''a1''), (''DOI'', PStr ''10.1/a''), (''Title'', PStr ''A'')]],
        DataFrame [padroniza_registro [(''ID'', PStr ''a2''), (''DOI'', PStr ''10.1/a''), (''Title'', PStr ''A'')]]]
       = Inr result
     \<and> distinct (map (dedup_key [''DOI'', ''Title'']) result)
     \<and> result = DataFrame [padroniza_registro [(''ID'', PStr ''a1''), (''DOI'', PStr ''10.1/a''), (''Title'', PStr ''A'')]]"
proof -
  let ?dfs = "[DataFrame [padroniza_registro [(''ID'', PStr ''a1''), (''DOI'', PStr ''10.1/a''), (''Title'', PStr ''A'')]],
        DataFrame [padroniza_registro [(''ID'', PStr ''a2''), (''DOI'', PStr ''10.1/a''), (''Title'', PStr ''A'')]]]"
  have h: "\<forall>row \<in> set (concat ?dfs). hashable (cell row ''DOI'') \<and> hashable (cell row ''Title'')"
    by (simp add: DataFrame_def cell_reindex_row cell_padroniza_registro DOI_standard
          Title_standard cell_Nil cell_Cons)
  have e: "aggregate ?dfs
      = Inr (DataFrame [padroniza_registro [(''ID'', PStr ''a1''), (''DOI'', PStr ''10.1/a''), (''Title'', PStr ''A'')]])"
    by (simp add: aggregate_def drop_duplicates_def dedup_key_def DataFrame_def
          cell_reindex_row cell_padroniza_registro DOI_standard Title_standard cell_Nil cell_Cons)
  from aggregate_first_occurrence [OF h] e show ?thesis by auto
qed

text \<open>
  C3 as stated fails in its last part: an OpenAlex record and a Scopus record that both
  lack DOI and title are different works, yet the second is dropped as a duplicate.
\<close>

theorem aggregate_na_counterexample:
  "aggregate
     [DataFrame [padroniza_registro [(''ID'', PStr ''W1''), (''API'', PStr ''openalex'')]],
      DataFrame [padroniza_registro [(''ID'', PStr ''2-s2.0-1''), (''API'', PStr ''scopus'')]]]
   = Inr (DataFrame [padroniza_registro [(''ID'', PStr ''W1''), (''API'', PStr ''openalex'')]])"
  by (simp add: aggregate_def drop_duplicates_def dedup_key_def DataFrame_def
        cell_reindex_row cell_padroniza_registro DOI_standard Title_standard cell_Nil cell_Cons)

subsection \<open>A failing source\<close>






text \<open>
  Over the whole command: the frames are never reset between the queries, each round
  saves again, and what is saved last is the aggregate of every non-empty frame that any
  source returned for any query.
\<close>

lemma search_queries_collects:
  assumes "\<forall>row \<in> set (concat df_list). hashable (cell row ''DOI'') \<and> hashable (cell row ''Title'')"
    and "\<forall>qry \<in> set qs. \<forall>src \<in> set S. \<forall>df. try_source A q qry src = Inr df \<longrightarrow>
             (\<forall>row \<in> set df. hashable (cell row ''DOI'') \<and> hashable (cell row ''Title''))"
    and "df_list \<noteq> [] \<longrightarrow> saved = Some (keep_first [''DOI'', ''Title''] [] (concat df_list))"
    and "df_list = [] \<longrightarrow> saved = None"
  shows "search_queries A q S qs df_list saved =
     (let collected = df_list @ concat (map (\<lambda>qry. [df. src \<leftarrow> S, src \<in> set known_sources,
                           Inr df \<leftarrow> [try_source A q qry src], df \<noteq> []]) qs)
      in Inr (if collected = [] then None
              else Some (keep_first [''DOI'', ''Title''] [] (concat collected))))"
  using assms
proof (induction qs arbitrary: df_list saved)
  case Nil
  then show ?case by (simp add: Let_def)
next
  case (Cons qry rest)
  define returned where "returned = [df. src \<leftarrow> S, src \<in> set known_sources,
                           Inr df \<leftarrow> [try_source A q qry src], df \<noteq> []]"
  define collected where "collected = df_list @ returned"
  have ret: "\<forall>row \<in> set (concat returned). hashable (cell row ''DOI'') \<and> hashable (cell row ''Title'')"
  proof
    fix row assume "row \<in> set (concat returned)"
    then obtain src df where "src \<in> set S" "try_source A q qry src = Inr df" "row \<in> set df"
      by (auto simp: returned_def split: sum.splits if_splits dest: sym)
    with Cons.prems(2) show "hashable (cell row ''DOI'') \<and> hashable (cell row ''Title'')"
      by auto
  qed
  with Cons.prems(1)
  have col: "\<forall>row \<in> set (concat collected). hashable (cell row ''DOI'') \<and> hashable (cell row ''Title'')"
    by (auto simp: collected_def)
  then have agg: "aggregate collected = Inr (keep_first [''DOI'', ''Title''] [] (concat collected))"
    by (rule aggregate_returns)
  have round: "search_query A q S qry df_list =
      (collected, if collected \<noteq> [] then Inr (Some (keep_first [''DOI'', ''Title''] [] (concat collected)))
                  else Inr None)"
  proof -
    have "search_sources A q qry S df_list = collected"
      by (simp add: search_sources_returned returned_def collected_def)
    then show ?thesis by (simp add: search_query_def agg Let_def)
  qed
  have rest: "\<forall>qry \<in> set rest. \<forall>src \<in> set S. \<forall>df. try_source A q qry src = Inr df \<longrightarrow>
             (\<forall>row \<in> set df. hashable (cell row ''DOI'') \<and> hashable (cell row ''Title''))"
    using Cons.prems(2) by simp
  show ?case
  proof (cases "collected = []")
    case True
    then have "df_list = []" by (simp add: collected_def)
    with Cons.prems have s: "saved = None" by simp
    have "search_queries A q S (qry # rest) df_list saved = search_queries A q S rest collected None"
      by (simp add: round True s)
    also have "\<dots> = (let c = collected @ concat (map (\<lambda>qry. [df. src \<leftarrow> S, src \<in> set known_sources,
                           Inr df \<leftarrow> [try_source A q qry src], df \<noteq> []]) rest)
      in Inr (if c = [] then None else Some (keep_first [''DOI'', ''Title''] [] (concat c))))"
      by (rule Cons.IH [OF col rest]) (simp_all add: True)
    finally show ?thesis by (simp add: collected_def returned_def Let_def)
  next
    case False
    have "search_queries A q S (qry # rest) df_list saved
        = search_queries A q S rest collected
            (Some (keep_first [''DOI'', ''Title''] [] (concat collected)))"
      by (simp add: round False)
    also have "\<dots> = (let c = collected @ concat (map (\<lambda>qry. [df. src \<leftarrow> S, src \<in> set known_sources,
                           Inr df \<leftarrow> [try_source A q qry src], df \<noteq> []]) rest)
      in Inr (if c = [] then None else Some (keep_first [''DOI'', ''Title''] [] (concat c))))"
      by (rule Cons.IH [OF col rest]) (simp_all add: False)
    finally show ?thesis by (simp add: collected_def returned_def Let_def)
  qed
qed

lemma search_collects:
  assumes "\<forall>qry \<in> set query. \<forall>src \<in> set S. \<forall>df. try_source A query qry src = Inr df \<longrightarrow>
             (\<forall>row \<in> set df. hashable (cell row ''DOI'') \<and> hashable (cell row ''Title''))"
    and "S = (if sources \<noteq> [] then sources else [''arxiv'', ''crossref'', ''openalex''])"
  shows "search A query sources =
     (let collected = concat (map (\<lambda>qry. [df. src \<leftarrow> S, src \<in> set known_sources,
                           Inr df \<leftarrow> [try_source A query qry src], df \<noteq> []]) query)
      in Inr (if collected = [] then None
              else Some (keep_first [''DOI'', ''Title''] [] (concat collected))))"
proof -
  have "search A query sources = search_queries A query S query [] None"
    by (simp add: search_def assms(2) Let_def)
  also have "\<dots> = (let collected = [] @ concat (map (\<lambda>qry. [df. src \<leftarrow> S, src \<in> set known_sources,
                           Inr df \<leftarrow> [try_source A query qry src], df \<noteq> []]) query)
      in Inr (if collected = [] then None
              else Some (keep_first [''DOI'', ''Title''] [] (concat collected))))"
    by (rule search_queries_collects) (simp_all add: assms(1))
  finally show ?thesis by simp
qed

subsection \<open>The OpenAlex adapter\<close>

lemma and_then_Inr: "and_then (Inr x) f = f x"
  by (simp add: and_then_def)

lemma and_then_Inl: "and_then (Inl e) f = Inl e"
  by (simp add: and_then_def)

lemma and_then_eq_Inr: "and_then m f = Inr y \<longleftrightarrow> (\<exists>x. m = Inr x \<and> f x = Inr y)"
  by (cases m) (simp_all add: and_then_def)

lemma ex_work_registro:
  "process_work ex_work =
     Inr (Some (padroniza_registro
       [(''ID'', PStr ''W2''),
        (''Authors'', PStr ''John Doe''),
        (''Authors Year'', PStr ''John Doe 2023''),
        (''Title'', PStr ''A study''),
        (''Journal'', PStr []),
        (''Publication Year'', PInt 2023),
        (''Publication Date'', PStr ''N/A''),
        (''Abstract'', PStr ''Hello world''),
        (''DOI'', PNone),
        (''Language'', PStr ''N/A''),
        (''Is Accepted'', PStr ''N/A''),
        (''Is Published'', PStr ''N/A''),
        (''Type'', PStr ''N/A''),
        (''Type Crossref'', PStr ''N/A''),
        (''Indexed In'', PStr ''N/A''),
        (''Is Open Access'', PStr ''No''),
        (''OA Status'', PStr ''N/A''),
        (''Download URL'', PStr []),
        (''Cited By Count'', PStr ''N/A''),
        (''API'', PStr ''openalex'')]))"
  by (simp add: ex_work_def process_work_def key_truthy_def dict_item_def and_then_Inr and_then_Inl
     convert_inverted_index_def openalex_registro_def openalex_authors_def py_join_def
     openalex_authors_year_def openalex_journal_def openalex_download_url_def dict_get_def
     str_int_def str_nat.simps Let_def)

lemma process_work_skip: "\<not> has_abstract w \<Longrightarrow> process_work w = Inr None"
  by (simp add: has_abstract_def process_work_def)

lemma process_work_keep: "has_abstract w \<Longrightarrow> process_work w \<noteq> Inr None"
  by (auto simp: has_abstract_def process_work_def and_then_def split: sum.splits)

lemma process_works_rows_filter:
  "process_works_rows (filter has_abstract works_list) = process_works_rows works_list"
proof (induction works_list)
  case Nil
  show ?case by simp
next
  case (Cons w ws)
  show ?case
  proof (cases "has_abstract w")
    case True
    with Cons show ?thesis by simp
  next
    case False
    then have "process_work w = Inr None" by (rule process_work_skip)
    with False Cons show ?thesis
      by (cases "process_works_rows ws") (simp_all add: and_then_def)
  qed
qed

lemma process_works_rows_length:
  "process_works_rows works_list = Inr rows \<Longrightarrow>
     length rows = length (filter has_abstract works_list)"
proof (induction works_list arbitrary: rows)
  case Nil
  then show ?case by simp
next
  case (Cons w ws)
  from Cons.prems obtain r rs
    where r: "process_work w = Inr r" and rs: "process_works_rows ws = Inr rs"
      and rows: "rows = (case r of None \<Rightarrow> rs | Some registro \<Rightarrow> registro # rs)"
    by (auto simp: and_then_def split: sum.splits)
  have len: "length rs = length (filter has_abstract ws)" by (rule Cons.IH [OF rs])
  show ?case
  proof (cases "has_abstract w")
    case True
    with r have "r \<noteq> None" using process_work_keep [OF True] by auto
    with rows len True show ?thesis by auto
  next
    case False
    with r have "r = None" using process_work_skip by fastforce
    with rows len False show ?thesis by simp
  qed
qed

lemma process_works_rows_none:
  "\<forall>w \<in> set works_list. \<not> has_abstract w \<Longrightarrow> process_works_rows works_list = Inr []"
  by (induction works_list) (simp_all add: process_work_skip and_then_def)

text \<open>
  C10. A work that has neither a non-empty \<^verbatim>\<open>abstract\<close> nor a non-empty
  \<^verbatim>\<open>abstract_inverted_index\<close> gives no record: the loop treats the list as if such works
  were not in it, a run that returns has exactly one record per work with an abstract,
  and a list of works without abstracts gives the empty frame.
\<close>

theorem process_works_omits_without_abstract:
  "(\<not> has_abstract w \<longrightarrow> process_work w = Inr None)
   \<and> process_works_rows works_list = process_works_rows (filter has_abstract works_list)
   \<and> (\<forall>rows. process_works_rows works_list = Inr rows \<longrightarrow>
         length rows = length (filter has_abstract works_list))
   \<and> ((\<forall>w \<in> set works_list. \<not> has_abstract w) \<longrightarrow> process_works works_list = Inr [])"
  by (simp add: process_work_skip process_works_rows_filter process_works_rows_length
        process_works_rows_none process_works_def and_then_def)

theorem process_works_omits_without_abstract_witness:
  "process_work [(''id'', PStr ''https://openalex.org/W1''), (''display_name'', PStr ''No abstract'')]
     = Inr None
   \<and> (\<exists>rows. process_works_rows
         [[(''id'', PStr ''https://openalex.org/W1''), (''display_name'', PStr ''No abstract'')],
          ex_work] = Inr rows \<and> length rows = 1)
   \<and> process_works
        [[(''id'', PStr ''https://openalex.org/W1''), (''display_name'', PStr ''No abstract'')]]
      = Inr []"
proof -
  let ?w = "[(''id'', PStr ''https://openalex.org/W1''), (''display_name'', PStr ''No abstract'')]"
  have no: "\<not> has_abstract ?w" by (simp add: has_abstract_def key_truthy_def)
  have yes: "has_abstract ex_work" by (simp add: has_abstract_def key_truthy_def ex_work_def)
  have rows: "\<exists>rows. process_works_rows [?w, ex_work] = Inr rows"
    by (simp add: process_work_skip [OF no] ex_work_registro and_then_def)
  from process_works_omits_without_abstract [of ?w "[?w, ex_work]"]
       process_works_omits_without_abstract [of ?w "[?w]"] no yes rows
  show ?thesis by auto
qed

subsection \<open>Authors-Year tags\<close>

lemma last_word_some: "split_ws s \<noteq> [] \<Longrightarrow> last_word s = Inr (last (split_ws s))"
  by (cases "split_ws s") (simp_all add: last_word_def)

lemma last_word_none: "split_ws s = [] \<Longrightarrow> last_word s = Inl IndexError"
  by (simp add: last_word_def)

text \<open>
  What the two adapters do. PubMed \<^verbatim>\<open>_make_authors_year\<close>: no author gives "Unknown year",
  one author gives "LastName year", two or more give "LastName1 et al. year" (there is
  no branch for two), the last name being the last whitespace-delimited word of the
  rendered name (a name without a word raises \<^verbatim>\<open>IndexError\<close>). OpenAlex \<^verbatim>\<open>_process_works\<close>:
  the tag is built from the full display names: no author gives "N/A year", one gives
  "Name year", two give "Name1 and Name2 year", three or more give "Name1 et al. year".
\<close>

lemma authors_year_rules:
  "pubmed_make_authors_year [] year = Inr (''Unknown '' @ year)
   \<and> (split_ws a \<noteq> [] \<longrightarrow>
        pubmed_make_authors_year [PStr a] year = Inr (last (split_ws a) @ '' '' @ year))
   \<and> (split_ws a \<noteq> [] \<and> others \<noteq> [] \<longrightarrow>
        pubmed_make_authors_year (PStr a # others) year
          = Inr (last (split_ws a) @ '' et al. '' @ year))
   \<and> (split_ws a = [] \<longrightarrow> pubmed_make_authors_year (PStr a # others) year = Inl IndexError)
   \<and> openalex_authors_year [] y = ''N/A '' @ py_format y
   \<and> openalex_authors_year [PStr a] y = a @ '' '' @ py_format y
   \<and> openalex_authors_year [PStr a, PStr b] y = a @ '' and '' @ b @ '' '' @ py_format y
   \<and> (length others \<ge> 2 \<longrightarrow>
        openalex_authors_year (PStr a # others) y = a @ '' et al. '' @ py_format y)"
proof -
  have "length others \<ge> 2 \<Longrightarrow>
        openalex_authors_year (PStr a # others) y = a @ '' et al. '' @ py_format y"
    by (cases others; cases "tl others") (simp_all add: openalex_authors_year_def)
  moreover have "split_ws a \<noteq> [] \<Longrightarrow> others \<noteq> [] \<Longrightarrow>
        pubmed_make_authors_year (PStr a # others) year
          = Inr (last (split_ws a) @ '' et al. '' @ year)"
    by (auto simp: pubmed_make_authors_year_def last_word_some and_then_def)
  ultimately show ?thesis
    by (simp add: pubmed_make_authors_year_def openalex_authors_year_def last_word_some
          last_word_none and_then_def)
qed

lemma split_ws_Silva: "split_ws ''A Silva'' = [''A'', ''Silva'']"
  by (simp add: split_ws.simps isspace_def)

lemma split_ws_Souza: "split_ws ''B Souza'' = [''B'', ''Souza'']"
  by (simp add: split_ws.simps isspace_def)

lemma split_ws_Doe: "split_ws ''Doe, J.'' = [''Doe,'', ''J.'']"
  by (simp add: split_ws.simps isspace_def)

lemma authors_year_examples:
  "pubmed_make_authors_year [PStr ''Doe, J.''] ''2023'' = Inr ''J. 2023''
   \<and> pubmed_make_authors_year [PStr ''A Silva'', PStr ''B Souza'', PStr ''C Lima''] ''2023''
       = Inr ''Silva et al. 2023''
   \<and> pubmed_make_authors_year [PStr '' ''] ''2023'' = Inl IndexError
   \<and> openalex_authors_year [PStr ''A Silva'', PStr ''B Souza'', PStr ''C Lima''] (PInt 2023)
       = ''A Silva et al. 2023''"
proof -
  have e: "split_ws '' '' = []" by (simp add: split_ws.simps isspace_def)
  show ?thesis
    using authors_year_rules [of "''2023''" "''Doe, J.''" "[]" "PInt 2023"]
      authors_year_rules [of "''2023''" "''A Silva''" "[PStr ''B Souza'', PStr ''C Lima'']" "PInt 2023"]
      authors_year_rules [of "''2023''" "'' ''" "[]" "PInt 2023"]
    by (simp add: split_ws_Silva split_ws_Doe e str_int_def str_nat.simps)
qed

text \<open>
  C6 fails in the code. For the two authors "A Silva" and "B Souza" of 2023 the tag
  should be "Silva and Souza 2023". PubMed \<^verbatim>\<open>_make_authors_year\<close> has no branch for two
  authors and gives "Silva et al. 2023"; OpenAlex \<^verbatim>\<open>_process_works\<close> puts the whole display
  names in the tag, "A Silva and B Souza 2023" (and "John Doe 2023" for a single author).
  Crossref \<^verbatim>\<open>_format_authors_year\<close>, on the same two authors, gives the tag that the rules
  ask for.
\<close>

theorem authors_year_two_authors:
  "pubmed_make_authors_year [PStr ''A Silva'', PStr ''B Souza''] ''2023''
     = Inr ''Silva et al. 2023''
   \<and> openalex_authors_year [PStr ''A Silva'', PStr ''B Souza''] (PInt 2023)
     = ''A Silva and B Souza 2023''
   \<and> openalex_authors_year [PStr ''John Doe''] (PInt 2023) = ''John Doe 2023''
   \<and> crossref_format_authors_year
       (PList [PDict [(''given'', PStr ''A''), (''family'', PStr ''Silva'')],
               PDict [(''given'', PStr ''B''), (''family'', PStr ''Souza'')]]) ''2023''
     = Inr ''Silva and Souza 2023''"
proof -
  have pubmed: "pubmed_make_authors_year [PStr ''A Silva'', PStr ''B Souza''] ''2023''
     = Inr ''Silva et al. 2023''"
    by (simp add: pubmed_make_authors_year_def last_word_def split_ws_Silva and_then_def)
  have openalex: "openalex_authors_year [PStr ''A Silva'', PStr ''B Souza''] (PInt 2023)
       = ''A Silva and B Souza 2023''"
    "openalex_authors_year [PStr ''John Doe''] (PInt 2023) = ''John Doe 2023''"
    by (simp_all add: openalex_authors_year_def str_int_def str_nat.simps)
  have strips: "strip ''A Silva'' = ''A Silva''" "strip ''B Souza'' = ''B Souza''"
    by (simp_all add: strip_def isspace_def)
  have names: "crossref_full_names
       (PList [PDict [(''given'', PStr ''A''), (''family'', PStr ''Silva'')],
               PDict [(''given'', PStr ''B''), (''family'', PStr ''Souza'')]])
     = Inr [''A Silva'', ''B Souza'']"
    by (simp add: crossref_full_names_def and_then_def dict_get_def strips)
  have crossref: "crossref_format_authors_year
       (PList [PDict [(''given'', PStr ''A''), (''family'', PStr ''Silva'')],
               PDict [(''given'', PStr ''B''), (''family'', PStr ''Souza'')]]) ''2023''
     = Inr ''Silva and Souza 2023''"
    by (simp add: crossref_format_authors_year_def names and_then_def last_word_def
          split_ws_Silva split_ws_Souza)
  from pubmed openalex crossref show ?thesis by simp
qed

subsection \<open>Schema completeness\<close>


lemma ID_standard: "''ID'' \<in> set STANDARD_COLUMNS"
  by (simp add: STANDARD_COLUMNS_def)







lemma ex_pub_search:
  "scholar_search [ex_pub] 10 =
     Inr (DataFrame [padroniza_registro
       [(''Authors'', PStr ''J Doe, A Silva''),
        (''Authors Year'', PStr ''Doe 2023''),
        (''Title'', PStr ''A study''),
        (''Journal'', PStr ''Journal X''),
        (''Publication Year'', PStr ''2023''),
        (''Publication Date'', PStr ''2023''),
        (''Abstract'', PStr ''Some text''),
        (''Language'', PStr ''N/A''),
        (''Is Accepted'', PStr ''N/A''),
        (''Is Published'', PStr ''Yes''),
        (''Type'', PStr ''scholar''),
        (''Type Crossref'', PStr ''N/A''),
        (''Indexed In'', PStr ''Google Scholar''),
        (''Is Open Access'', PStr ''N/A''),
        (''OA Status'', PStr ''N/A''),
        (''Download URL'', PStr ''http://example.com/p''),
        (''Cited By Count'', PInt 3),
        (''API'', PStr ''scholar'')]])"
  by (simp add: scholar_search_def scholar_registro_def ex_pub_def dict_item_def and_then_Inr
        and_then_Inl py_join_def scholar_authors_year_def last_word_def split_ws.simps isspace_def
        Let_def)



subsection \<open>Open access\<close>

lemma IOA_standard: "''Is Open Access'' \<in> set STANDARD_COLUMNS"
  by (simp add: STANDARD_COLUMNS_def)

lemma pubmed_registro_oa:
  assumes "pubmed_registro entry = Inr registro"
  shows "cell registro ''Is Open Access''
     = PStr (if truthy (dict_get entry ''is_oa'' (PBool False)) then ''Yes'' else ''No'')"
  using assms
  unfolding pubmed_registro_def and_then_eq_Inr Let_def
  by (elim exE conjE) (auto simp: cell_padroniza_registro cell_Cons)

lemma springer_record_oa:
  assumes "springer_record rec = Inr registro"
  shows "cell registro ''Is Open Access''
     = PStr (if lower (py_format (dict_get rec ''openaccess'' (PStr ''false''))) = ''true''
             then ''Yes'' else ''No'')"
  using assms
  unfolding springer_record_def and_then_eq_Inr Let_def
  by (elim exE conjE) (auto simp: cell_padroniza_registro cell_Cons)

lemma openalex_registro_oa:
  assumes "openalex_registro w abstract = Inr registro" and "map_of w ''open_access'' = None"
  shows "cell registro ''Is Open Access'' = PStr ''No''"
  using assms
  unfolding openalex_registro_def and_then_eq_Inr Let_def
  by (elim exE conjE) (auto simp: cell_padroniza_registro cell_Cons dict_get_def)

lemma lower_false: "lower ''false'' = ''false''"
  by (simp add: lower_def lower_char_def)

text \<open>
  C8 (as amended). Without an open-access signal the field is "N/A" for Crossref (no
  \<^verbatim>\<open>license\<close> key) and "No" for the three adapters that default the missing signal to
  false: PubMed (\<^verbatim>\<open>is_oa\<close> false or absent: no PubMed Central identifier), SpringerNature
  (no \<^verbatim>\<open>openaccess\<close> key) and OpenAlex (no \<^verbatim>\<open>open_access\<close> key). PubMed and SpringerNature
  never give "N/A".
\<close>

theorem open_access_without_signal:
  "(map_of item ''license'' = None \<longrightarrow> crossref_open_access item = (''N/A'', ''N/A''))
   \<and> (\<forall>registro. pubmed_registro entry = Inr registro \<longrightarrow>
         cell registro ''Is Open Access''
           = PStr (if truthy (dict_get entry ''is_oa'' (PBool False)) then ''Yes'' else ''No'')
         \<and> (map_of entry ''is_oa'' = None \<longrightarrow> cell registro ''Is Open Access'' = PStr ''No''))
   \<and> (\<forall>registro. springer_record rec = Inr registro \<longrightarrow>
         cell registro ''Is Open Access''
           = PStr (if lower (py_format (dict_get rec ''openaccess'' (PStr ''false''))) = ''true''
                   then ''Yes'' else ''No'')
         \<and> (map_of rec ''openaccess'' = None \<longrightarrow> cell registro ''Is Open Access'' = PStr ''No''))
   \<and> (\<forall>registro. openalex_registro w abstract = Inr registro \<and> map_of w ''open_access'' = None
         \<longrightarrow> cell registro ''Is Open Access'' = PStr ''No'')"
proof (intro conjI allI impI)
  show "crossref_open_access item = (''N/A'', ''N/A'')" if "map_of item ''license'' = None"
    using that by (simp add: crossref_open_access_def dict_get_def)
  show "cell registro ''Is Open Access''
           = PStr (if truthy (dict_get entry ''is_oa'' (PBool False)) then ''Yes'' else ''No'')"
    if "pubmed_registro entry = Inr registro" for registro
    using that by (rule pubmed_registro_oa)
  show "cell registro ''Is Open Access'' = PStr ''No''"
    if "pubmed_registro entry = Inr registro" "map_of entry ''is_oa'' = None" for registro
    using pubmed_registro_oa [OF that(1)] that(2) by (simp add: dict_get_def)
  show "cell registro ''Is Open Access''
           = PStr (if lower (py_format (dict_get rec ''openaccess'' (PStr ''false''))) = ''true''
                   then ''Yes'' else ''No'')"
    if "springer_record rec = Inr registro" for registro
    using that by (rule springer_record_oa)
  show "cell registro ''Is Open Access'' = PStr ''No''"
    if "springer_record rec = Inr registro" "map_of rec ''openaccess'' = None" for registro
    using springer_record_oa [OF that(1)] that(2) by (simp add: dict_get_def lower_false)
  show "cell registro ''Is Open Access'' = PStr ''No''"
    if "openalex_registro w abstract = Inr registro \<and> map_of w ''open_access'' = None"
    for registro
    using that openalex_registro_oa by blast
qed

lemma ex_springer_record:
  "springer_record [(''title'', PStr ''T''), (''doi'', PStr ''10.1007/x'')] =
     Inr (padroniza_registro
        [(''ID'', PStr ''10.1007/x''),
         (''Authors'', PStr ''N/A''),
         (''Authors Year'', PStr ''N/A''),
         (''Title'', PStr ''T''),
         (''Journal'', PStr ''N/A''),
         (''Publication Year'', PStr ''N/A''),
         (''Publication Date'', PStr ''N/A''),
         (''Abstract'', PStr ''N/A''),
         (''DOI'', PStr ''10.1007/x''),
         (''Language'', PStr ''N/A''),
         (''Is Accepted'', PStr ''N/A''),
         (''Is Published'', PStr ''N/A''),
         (''Type'', PStr ''N/A''),
         (''Type Crossref'', PStr ''N/A''),
         (''Indexed In'', PStr ''SpringerNature''),
         (''Is Open Access'', PStr ''No''),
         (''OA Status'', PStr ''N/A''),
         (''Download URL'', PStr ''N/A''),
         (''Cited By Count'', PStr ''N/A''),
         (''API'', PStr ''springernature'')])"
  by (simp add: springer_record_def springer_download_url_def dict_get_def and_then_Inr
        lower_false Let_def)

theorem open_access_without_signal_witness:
  "crossref_open_access [(''DOI'', PStr ''10.1000/testdoi'')] = (''N/A'', ''N/A'')
   \<and> (\<exists>registro. pubmed_registro [(''pmid'', PStr ''1'')] = Inr registro
         \<and> cell registro ''Is Open Access'' = PStr ''No'')
   \<and> (\<exists>registro. springer_record [(''title'', PStr ''T''), (''doi'', PStr ''10.1007/x'')]
           = Inr registro
         \<and> cell registro ''Is Open Access'' = PStr ''No'')
   \<and> (\<exists>registro. openalex_registro ex_work (PStr ''Hello world'') = Inr registro
         \<and> cell registro ''Is Open Access'' = PStr ''No'')"
proof -
  have p: "\<exists>registro. pubmed_registro [(''pmid'', PStr ''1'')] = Inr registro"
    by (simp add: pubmed_registro_def dict_get_def and_then_Inr lower_def Let_def)
  have s: "\<exists>registro. springer_record [(''title'', PStr ''T''), (''doi'', PStr ''10.1007/x'')]
           = Inr registro"
    by (simp add: ex_springer_record)
  have "process_work ex_work \<noteq> Inr None"
    by (simp add: ex_work_registro)
  then have o: "\<exists>registro. openalex_registro ex_work (PStr ''Hello world'') = Inr registro"
    using ex_work_registro
    by (simp add: process_work_def key_truthy_def ex_work_def dict_item_def and_then_Inr
          convert_inverted_index_def Let_def and_then_eq_Inr)
  have n: "map_of ex_work ''open_access'' = None" by (simp add: ex_work_def)
  from p s o n
    open_access_without_signal [of "[(''DOI'', PStr ''10.1000/testdoi'')]" "[(''pmid'', PStr ''1'')]"
      "[(''title'', PStr ''T''), (''doi'', PStr ''10.1007/x'')]" ex_work "PStr ''Hello world''"]
  show ?thesis by auto
qed

text \<open>
  C8 as stated fails: a SpringerNature record that carries no \<^verbatim>\<open>openaccess\<close> flag comes
  out with Is Open Access = "No".
\<close>

theorem springer_open_access_counterexample:
  "\<not> isl (springer_process_data
       (PDict [(''records'', PList [PDict [(''title'', PStr ''T''), (''doi'', PStr ''10.1007/x'')]])]))
   \<and> map (\<lambda>registro. cell registro ''Is Open Access'')
        (projr (springer_process_data
          (PDict [(''records'', PList [PDict [(''title'', PStr ''T''), (''doi'', PStr ''10.1007/x'')]])])))
      = [PStr ''No'']"
  by (simp add: springer_process_data_def dict_get_def and_then_Inr ex_springer_record
        cell_padroniza_registro cell_Cons)

subsection \<open>Cleaning an abstract\<close>

lemma isspace_space: "isspace CHR '' ''"
  by (simp add: isspace_def)

lemma single_spaced_Cons_nonspace: "\<not> isspace c \<Longrightarrow> single_spaced (c # r) = single_spaced r"
  by (cases r) simp_all

lemma sub_ws_Cons_nonspace: "\<not> isspace c \<Longrightarrow> sub_ws (c # cs) = c # sub_ws cs"
  by (cases cs) simp_all

lemma single_spaced_sub_ws: "single_spaced (sub_ws s)"
proof (induction s rule: sub_ws.induct)
  case 1
  show ?case by simp
next
  case (2 c)
  show ?case by (simp add: isspace_space)
next
  case (3 c d cs)
  show ?case
  proof (cases "isspace c")
    case False
    with 3 show ?thesis by (simp add: single_spaced_Cons_nonspace)
  next
    case True
    show ?thesis
    proof (cases "isspace d")
      case True
      with 3 \<open>isspace c\<close> show ?thesis by simp
    next
      case False
      with 3 \<open>isspace c\<close> show ?thesis
        by (simp add: sub_ws_Cons_nonspace single_spaced_Cons_nonspace)
    qed
  qed
qed

lemma sub_ws_fixed: "single_spaced s \<Longrightarrow> sub_ws s = s"
  by (induction s rule: sub_ws.induct) auto

lemma single_spaced_tl: "single_spaced s \<Longrightarrow> single_spaced (tl s)"
  by (cases s rule: single_spaced.cases) simp_all

lemma single_spaced_drop: "single_spaced s \<Longrightarrow> single_spaced (drop n s)"
proof (induction n arbitrary: s)
  case 0
  then show ?case by simp
next
  case (Suc n)
  then show ?case by (cases s) (auto dest: single_spaced_tl)
qed

lemma single_spaced_dropWhile: "single_spaced s \<Longrightarrow> single_spaced (dropWhile P s)"
  using single_spaced_drop [of s "length (takeWhile P s)"] by (simp add: dropWhile_eq_drop)

lemma single_spaced_butlast: "single_spaced s \<Longrightarrow> single_spaced (butlast s)"
  by (induction s rule: single_spaced.induct) (auto split: if_splits)

lemma single_spaced_take: "single_spaced s \<Longrightarrow> single_spaced (take n s)"
proof (induction "length s - n" arbitrary: n)
  case 0
  then show ?case by simp
next
  case (Suc k)
  then have "k = length s - Suc n" and "n < length s" by simp_all
  with Suc have "single_spaced (take (Suc n) s)" by simp
  then have "single_spaced (butlast (take (Suc n) s))" by (rule single_spaced_butlast)
  with \<open>n < length s\<close> show ?case by (simp add: butlast_take)
qed

lemma rstrip_take: "rev (dropWhile P (rev s)) = take (length s - length (takeWhile P (rev s))) s"
  by (simp add: dropWhile_eq_drop rev_drop)

lemma single_spaced_strip: "single_spaced s \<Longrightarrow> single_spaced (strip s)"
  unfolding strip_def rstrip_take by (intro single_spaced_take single_spaced_dropWhile)

lemma trimmed_strip: "trimmed (strip s)"
proof (cases "strip s = []")
  case True
  then show ?thesis by (simp add: trimmed_def)
next
  case False
  let ?u = "dropWhile isspace s"
  let ?v = "dropWhile isspace (rev ?u)"
  have v: "?v \<noteq> []" using False by (simp add: strip_def)
  then have "\<not> isspace (hd ?v)" by (rule hd_dropWhile)
  then have last: "\<not> isspace (last (strip s))"
    using v by (simp add: strip_def last_rev)
  have u: "?u \<noteq> []"
  proof
    assume a: "?u = []"
    have "?v = dropWhile isspace (rev [])" by (simp only: a)
    with v show False by simp
  qed
  then have "\<not> isspace (hd ?u)" by (rule hd_dropWhile)
  moreover have "hd (strip s) = hd ?u"
    using False unfolding strip_def rstrip_take by (simp add: hd_take)
  ultimately show ?thesis using last by (simp add: trimmed_def)
qed

lemma strip_fixed: "trimmed s \<Longrightarrow> strip s = s"
proof (cases s)
  case Nil
  then show ?thesis by (simp add: strip_def)
next
  case (Cons c cs)
  assume "trimmed s"
  with Cons have h: "\<not> isspace (hd s)" and l: "\<not> isspace (last s)"
    by (simp_all add: trimmed_def)
  from h Cons have "dropWhile isspace s = s" by simp
  moreover have "dropWhile isspace (rev s) = rev s"
  proof -
    from Cons obtain a list where r: "rev s = a # list" by (cases "rev s") auto
    from Cons have "hd (rev s) = last s" by (simp add: hd_rev)
    with r l have "\<not> isspace a" by simp
    with r show ?thesis by simp
  qed
  ultimately show ?thesis by (simp add: strip_def)
qed

lemma strip_tags_fixed: "CHR ''<'' \<notin> set s \<Longrightarrow> strip_tags s = s"
  by (induction s) auto

lemma set_strip_tags: "set (strip_tags s) \<subseteq> set s"
proof (induction s rule: strip_tags.induct)
  case 1
  show ?case by simp
next
  case (2 c cs)
  have "set (tl xs) \<subseteq> set xs" for xs :: string by (cases xs) auto
  moreover have "set (dropWhile (\<lambda>x. x \<noteq> CHR ''>'') cs) \<subseteq> set cs"
    by (auto dest: set_dropWhileD)
  ultimately have "set (tl (dropWhile (\<lambda>x. x \<noteq> CHR ''>'') cs)) \<subseteq> set cs"
    by blast
  with 2 show ?case by auto
qed

lemma strip_tags_idem: "strip_tags (strip_tags s) = strip_tags s"
proof (induction s rule: strip_tags.induct)
  case 1
  show ?case by simp
next
  case (2 c cs)
  let ?m = "c = CHR ''<'' \<and> takeWhile (\<lambda>x. x \<noteq> CHR ''>'') cs \<noteq> []
          \<and> dropWhile (\<lambda>x. x \<noteq> CHR ''>'') cs \<noteq> []"
  show ?case
  proof (cases ?m)
    case True
    with 2 show ?thesis by simp
  next
    case False
    then have step: "strip_tags (c # cs) = c # strip_tags cs" by auto
    from False 2 have ih: "strip_tags (strip_tags cs) = strip_tags cs" by auto
    show ?thesis
    proof (cases "c = CHR ''<''")
      case False
      with step ih show ?thesis by simp
    next
      case True
      with \<open>\<not> ?m\<close> consider "cs = []" | r where "cs = CHR ''>'' # r"
        | "dropWhile (\<lambda>x. x \<noteq> CHR ''>'') cs = []"
        by (cases cs) (auto split: if_splits)
      then have "takeWhile (\<lambda>x. x \<noteq> CHR ''>'') (strip_tags cs) = []
          \<or> dropWhile (\<lambda>x. x \<noteq> CHR ''>'') (strip_tags cs) = []"
      proof cases
        case 1
        then show ?thesis by simp
      next
        case 2
        then show ?thesis by simp
      next
        case 3
        then have "CHR ''>'' \<notin> set cs" by (auto simp: dropWhile_eq_Nil_conv)
        with set_strip_tags [of cs] have "CHR ''>'' \<notin> set (strip_tags cs)" by auto
        then show ?thesis by (auto simp: dropWhile_eq_Nil_conv)
      qed
      with step ih show ?thesis by auto
    qed
  qed
qed

lemma example_tags: "strip_tags ''<p>Sample <b>abstract</b> text.</p>'' = ''Sample abstract text.''"
  by simp

lemma example_clean: "single_spaced ''Sample abstract text.'' \<and> trimmed ''Sample abstract text.''"
  by (simp add: trimmed_def isspace_def)

text \<open>
  C7 (as amended). An abstract that is not a string, is empty or whitespace-only, or is the
  sentinel in any letter case becomes "N/A". Otherwise the result is the abstract with its
  tags stripped (a second stripping finds nothing left to strip), its entities unescaped,
  and its whitespace collapsed and trimmed: the result has single spaces only and no
  whitespace at either end. An abstract that is already clean (not empty, not the sentinel,
  no \<^verbatim>\<open><\<close>, no \<^verbatim>\<open>&\<close>, single spaces only, nothing to trim) is returned unchanged, and the
  sample of the test suite becomes "Sample abstract text.".
\<close>

theorem crossref_clean_abstract_properties:
  "(strip raw = [] \<or> upper (strip raw) = ''N/A''
      \<longrightarrow> crossref_clean_abstract charref (PStr raw) = ''N/A'')
   \<and> crossref_clean_abstract charref PNone = ''N/A''
   \<and> (strip raw \<noteq> [] \<and> upper (strip raw) \<noteq> ''N/A'' \<longrightarrow>
        crossref_clean_abstract charref (PStr raw)
          = strip (sub_ws (html_unescape charref (strip_tags raw)))
        \<and> strip_tags (strip_tags raw) = strip_tags raw
        \<and> single_spaced (crossref_clean_abstract charref (PStr raw))
        \<and> trimmed (crossref_clean_abstract charref (PStr raw)))
   \<and> (raw \<noteq> [] \<and> upper raw \<noteq> ''N/A'' \<and> CHR ''<'' \<notin> set raw \<and> CHR ''&'' \<notin> set raw
        \<and> single_spaced raw \<and> trimmed raw
      \<longrightarrow> crossref_clean_abstract charref (PStr raw) = raw)
   \<and> crossref_clean_abstract charref (PStr ''<p>Sample <b>abstract</b> text.</p>'')
        = ''Sample abstract text.''"
proof (intro conjI impI)
  show "crossref_clean_abstract charref (PStr raw) = ''N/A''"
    if "strip raw = [] \<or> upper (strip raw) = ''N/A''"
    using that by (auto simp: crossref_clean_abstract_def)
  show "crossref_clean_abstract charref PNone = ''N/A''"
    by (simp add: crossref_clean_abstract_def)
  show "crossref_clean_abstract charref (PStr raw)
          = strip (sub_ws (html_unescape charref (strip_tags raw)))"
    if "strip raw \<noteq> [] \<and> upper (strip raw) \<noteq> ''N/A''"
    using that by (simp add: crossref_clean_abstract_def)
  show "strip_tags (strip_tags raw) = strip_tags raw" by (rule strip_tags_idem)
  show "single_spaced (crossref_clean_abstract charref (PStr raw))"
    if "strip raw \<noteq> [] \<and> upper (strip raw) \<noteq> ''N/A''"
    using that
    by (simp add: crossref_clean_abstract_def single_spaced_strip single_spaced_sub_ws)
  show "trimmed (crossref_clean_abstract charref (PStr raw))"
    if "strip raw \<noteq> [] \<and> upper (strip raw) \<noteq> ''N/A''"
    using that by (simp add: crossref_clean_abstract_def trimmed_strip)
  show "crossref_clean_abstract charref (PStr raw) = raw"
    if "raw \<noteq> [] \<and> upper raw \<noteq> ''N/A'' \<and> CHR ''<'' \<notin> set raw \<and> CHR ''&'' \<notin> set raw
        \<and> single_spaced raw \<and> trimmed raw"
    using that
    by (simp add: crossref_clean_abstract_def strip_fixed sub_ws_fixed strip_tags_fixed
          html_unescape_def)
  have "strip ''<p>Sample <b>abstract</b> text.</p>'' = ''<p>Sample <b>abstract</b> text.</p>''"
    by (rule strip_fixed) (simp add: trimmed_def isspace_def)
  then show "crossref_clean_abstract charref (PStr ''<p>Sample <b>abstract</b> text.</p>'')
        = ''Sample abstract text.''"
    using example_clean
    by (simp add: crossref_clean_abstract_def example_tags html_unescape_def upper_def
          sub_ws_fixed strip_fixed del: strip_tags.simps)
qed

theorem crossref_clean_abstract_properties_witness:
  "crossref_clean_abstract charref_xml (PStr ''  n/a '') = ''N/A''
   \<and> crossref_clean_abstract charref_xml (PStr ''Sample abstract text.'') = ''Sample abstract text.''
   \<and> single_spaced (crossref_clean_abstract charref_xml (PStr ''<p>Sample <b>abstract</b> text.</p>''))
   \<and> trimmed (crossref_clean_abstract charref_xml (PStr ''<p>Sample <b>abstract</b> text.</p>''))"
proof -
  have a: "strip ''  n/a '' = ''n/a''" by (simp add: strip_def isspace_def)
  have b: "upper ''n/a'' = ''N/A''" by (simp add: upper_def upper_char_def)
  have c: "strip ''<p>Sample <b>abstract</b> text.</p>'' = ''<p>Sample <b>abstract</b> text.</p>''"
    by (rule strip_fixed) (simp add: trimmed_def isspace_def)
  have d: "upper ''Sample abstract text.'' \<noteq> ''N/A''"
    "upper ''<p>Sample <b>abstract</b> text.</p>'' \<noteq> ''N/A''"
    by (simp_all add: upper_def)
  have w1: "crossref_clean_abstract charref_xml (PStr ''  n/a '') = ''N/A''"
    using crossref_clean_abstract_properties [of "''  n/a ''" charref_xml, THEN conjunct1] a b
    by simp
  have w2: "crossref_clean_abstract charref_xml (PStr ''Sample abstract text.'')
      = ''Sample abstract text.''"
    using crossref_clean_abstract_properties [of "''Sample abstract text.''" charref_xml,
        THEN conjunct2, THEN conjunct2, THEN conjunct2, THEN conjunct1] d(1) example_clean
    by simp
  have w3: "single_spaced (crossref_clean_abstract charref_xml (PStr ''<p>Sample <b>abstract</b> text.</p>''))
     \<and> trimmed (crossref_clean_abstract charref_xml (PStr ''<p>Sample <b>abstract</b> text.</p>''))"
  proof -
    have pre: "strip ''<p>Sample <b>abstract</b> text.</p>'' \<noteq> []
        \<and> upper (strip ''<p>Sample <b>abstract</b> text.</p>'') \<noteq> ''N/A''"
      using c d(2) by simp
    from crossref_clean_abstract_properties [of "''<p>Sample <b>abstract</b> text.</p>''"
        charref_xml, THEN conjunct2, THEN conjunct2, THEN conjunct1, THEN mp, OF pre]
    show ?thesis by blast
  qed
  from w1 w2 w3 show ?thesis by simp
qed

text \<open>
  C7 as stated fails: the transformation is not idempotent. An abstract made of tags only
  is cleaned to the empty string, which a second cleaning turns into "N/A"; and unescaping
  can produce what a second cleaning strips as a tag.
\<close>

theorem crossref_clean_abstract_counterexample:
  "crossref_clean_abstract charref_xml (PStr ''<p></p>'') = []
   \<and> crossref_clean_abstract charref_xml (PStr []) = ''N/A''
   \<and> crossref_clean_abstract charref_xml (PStr ''a &lt; b &gt; c'') = ''a < b > c''
   \<and> crossref_clean_abstract charref_xml (PStr ''a < b > c'') = ''a c''"
  by (simp add: crossref_clean_abstract_def html_unescape_def strip_def isspace_def upper_def
        upper_char_def)

subsection \<open>The record limit\<close>

lemma ex_scopus_registro:
  "scopus_registro (PDict [(''eid'', PStr i), (''dc:title'', PStr t)]) =
     Inr (padroniza_registro
       [(''ID'', PStr i),
        (''Authors'', PStr ''N/A''),
        (''Authors Year'', PStr ''unknown N/A''),
        (''Title'', PStr t),
        (''Journal'', PStr ''N/A''),
        (''Publication Year'', PStr ''N/A''),
        (''Publication Date'', PStr ''N/A''),
        (''Abstract'', PStr ''N/A''),
        (''DOI'', PStr ''N/A''),
        (''Language'', PStr ''N/A''),
        (''Is Accepted'', PStr ''N/A''),
        (''Is Published'', PStr ''No''),
        (''Type'', PStr ''Scopus''),
        (''Type Crossref'', PStr ''N/A''),
        (''Indexed In'', PStr ''Scopus''),
        (''Is Open Access'', PStr ''N/A''),
        (''OA Status'', PStr ''N/A''),
        (''Download URL'', PStr ''N/A''),
        (''Cited By Count'', PStr ''N/A''),
        (''API'', PStr ''scopus'')])"
  by (simp add: scopus_registro_def dict_get_def and_then_Inr Let_def)

lemma ex_scopus_page:
  "outcome (fetch_scopus_page (ex_scopus n start)) =
     Inr (PDict [(''search-results'',
            PDict [(''entry'', PList (drop (nat start) ex_scopus_entries))])])"
  by (simp add: fetch_scopus_page_def retry_on_fail_def retrying_first ex_scopus_def
        fetch_scopus_page_call_def del: One_nat_def)

text \<open>
  C2 fails for Scopus. Asked for at most one record (\<^verbatim>\<open>count = 1\<close>) of a query with two
  documents, \<^verbatim>\<open>fetch_references\<close> returns three rows: both documents from the first page
  (the request carries no page size), then, the page being longer than \<^verbatim>\<open>count\<close>, the
  second document again from offset 1. Nothing truncates the list.
\<close>

theorem scopus_exceeds_count:
  "map_option (map_sum id (map (\<lambda>row. cell row ''ID''))) (scopus_fetch_references ex_scopus 1)
     = Some (Inr [PStr ''2-s2.0-1'', PStr ''2-s2.0-2'', PStr ''2-s2.0-2''])"
proof -
  have second: "scopus_loop ex_scopus 1 (Suc 0) 1 rows =
      Some (Inr (rows @ [padroniza_registro
       [(''ID'', PStr ''2-s2.0-2''),
        (''Authors'', PStr ''N/A''),
        (''Authors Year'', PStr ''unknown N/A''),
        (''Title'', PStr ''Second''),
        (''Journal'', PStr ''N/A''),
        (''Publication Year'', PStr ''N/A''),
        (''Publication Date'', PStr ''N/A''),
        (''Abstract'', PStr ''N/A''),
        (''DOI'', PStr ''N/A''),
        (''Language'', PStr ''N/A''),
        (''Is Accepted'', PStr ''N/A''),
        (''Is Published'', PStr ''No''),
        (''Type'', PStr ''Scopus''),
        (''Type Crossref'', PStr ''N/A''),
        (''Indexed In'', PStr ''Scopus''),
        (''Is Open Access'', PStr ''N/A''),
        (''OA Status'', PStr ''N/A''),
        (''Download URL'', PStr ''N/A''),
        (''Cited By Count'', PStr ''N/A''),
        (''API'', PStr ''scopus'')]]))" for rows
    by (subst scopus_loop.simps)
       (simp add: ex_scopus_page ex_scopus_entries_def dict_get_def and_then_Inr
          ex_scopus_registro)
  show ?thesis
    unfolding scopus_fetch_references_def
    by (subst scopus_loop.simps)
       (simp add: ex_scopus_page ex_scopus_entries_def dict_get_def and_then_Inr
          ex_scopus_registro second DataFrame_def cell_reindex_row cell_padroniza_registro
          ID_standard cell_Cons)
qed

text \<open>
  The other adapters do keep within the limit; two of them follow.
\<close>

lemma scholar_loop_length:
  "scholar_loop max_records idx generator url = Inr records \<Longrightarrow>
     int idx + int (length records) \<le> max max_records (int idx)"
proof (induction generator arbitrary: idx url records)
  case Nil
  then show ?case by simp
next
  case (Cons pub generator)
  show ?case
  proof (cases "int idx \<ge> max_records")
    case True
    with Cons.prems show ?thesis by simp
  next
    case False
    with Cons.prems obtain registro url' rest
      where b: "scholar_loop max_records (idx + 1) generator url' = Inr rest"
        and c: "records = registro # rest"
      by (auto simp: and_then_eq_Inr)
    from Cons.IH [OF b] c False show ?thesis by simp
  qed
qed

text \<open>
  X1. The Scholar adapter honours the limit: \<^verbatim>\<open>search\<close> stops pulling from the generator at
  \<^verbatim>\<open>idx >= max_records\<close>, so a frame it returns has at most \<^verbatim>\<open>max_records\<close> rows.
\<close>

theorem scholar_search_within_limit:
  "scholar_search generator max_records = Inr df \<Longrightarrow> int (length df) \<le> max max_records 0"
proof -
  assume "scholar_search generator max_records = Inr df"
  then obtain records where r: "scholar_loop max_records 0 generator None = Inr records"
    and df: "df = DataFrame records"
    by (auto simp: scholar_search_def and_then_eq_Inr)
  from scholar_loop_length [OF r] df show ?thesis by (simp add: DataFrame_def)
qed

theorem scholar_search_within_limit_witness:
  "scholar_search [ex_pub, ex_pub, ex_pub] 1 = scholar_search [ex_pub] 10
   \<and> int (length (projr (scholar_search [ex_pub, ex_pub, ex_pub] 1))) \<le> max 1 0"
proof -
  have e: "scholar_search [ex_pub, ex_pub, ex_pub] 1 = scholar_search [ex_pub] 10"
    by (simp add: scholar_search_def and_then_def split: sum.splits prod.splits)
  from ex_pub_search e have "scholar_search [ex_pub, ex_pub, ex_pub] 1
      = Inr (projr (scholar_search [ex_pub, ex_pub, ex_pub] 1))"
    by simp
  from scholar_search_within_limit [OF this] e show ?thesis by simp
qed

lemma crossref_loop_limit:
  assumes "crossref_loop charref requests_get rows max_records n offset all_records = Some y"
  shows "\<forall>m out. max_records = Some m \<longrightarrow> y = Inr out \<longrightarrow> m > 0
           \<longrightarrow> int (length all_records) < m \<longrightarrow> int (length out) \<le> m"
proof (rule crossref_loop.raw_induct
    [where P = "\<lambda>c g r mr k off acc res. \<forall>m out. mr = Some m \<longrightarrow> res = Inr out \<longrightarrow> m > 0
           \<longrightarrow> int (length acc) < m \<longrightarrow> int (length out) \<le> m", OF _ assms])
  fix loop :: "(string \<Rightarrow> string) \<Rightarrow> (nat \<Rightarrow> int \<Rightarrow> exc + response) \<Rightarrow> int \<Rightarrow> int option \<Rightarrow> nat \<Rightarrow> int
     \<Rightarrow> dict list \<Rightarrow> (exc + dict list) option"
  fix charref requests_get rows max_records n offset all_records y
  assume IH: "\<And>c g r mr k off acc res. loop c g r mr k off acc = Some res \<Longrightarrow>
     \<forall>m out. mr = Some m \<longrightarrow> res = Inr out \<longrightarrow> m > 0
           \<longrightarrow> int (length acc) < m \<longrightarrow> int (length out) \<le> m"
  assume body: "(case crossref_fetch_data (requests_get n offset) of
        Inl e \<Rightarrow> Some (Inl e)
      | Inr data \<Rightarrow>
          (case crossref_process_data charref data of
             Inl e \<Rightarrow> Some (Inl e)
           | Inr records \<Rightarrow>
               if records = [] then Some (Inr all_records)
               else if max_records \<noteq> None \<and> max_records \<noteq> Some 0
                       \<and> int (length (all_records @ records)) \<ge> the max_records
               then Some (Inr (slice_to (all_records @ records) (the max_records)))
               else (case and_then (py_get data ''message'' (PDict []))
                            (\<lambda>message. py_get message ''total-results'' (PInt 0)) of
                       Inl e \<Rightarrow> Some (Inl e)
                     | Inr total_results \<Rightarrow>
                         (case int_ge (offset + rows) total_results of
                            Inl e \<Rightarrow> Some (Inl e)
                          | Inr reached \<Rightarrow>
                              if reached then Some (Inr (all_records @ records))
                              else loop charref requests_get rows max_records (n + 1)
                                     (offset + rows) (all_records @ records))))) = Some y"
  show "\<forall>m out. max_records = Some m \<longrightarrow> y = Inr out \<longrightarrow> m > 0
           \<longrightarrow> int (length all_records) < m \<longrightarrow> int (length out) \<le> m"
  proof (intro allI impI)
    fix m out
    assume mr: "max_records = Some m" and y: "y = Inr out" and m: "m > 0"
      and len: "int (length all_records) < m"
    show "int (length out) \<le> m"
    proof (cases "crossref_fetch_data (requests_get n offset)")
      case (Inl e)
      with body y show ?thesis by simp
    next
      case data: (Inr data)
      show ?thesis
      proof (cases "crossref_process_data charref data")
        case (Inl e)
        with body y data show ?thesis by simp
      next
        case recs: (Inr records)
        show ?thesis
        proof (cases "records = []")
          case True
          with body y data recs len show ?thesis by simp
        next
          case nonempty: False
          show ?thesis
          proof (cases "int (length (all_records @ records)) \<ge> m")
            case True
            with body y data recs nonempty mr m
            have "out = slice_to (all_records @ records) m" by simp
            with m show ?thesis by (simp add: slice_to_def)
          next
            case below: False
            let ?total = "and_then (py_get data ''message'' (PDict []))
                            (\<lambda>message. py_get message ''total-results'' (PInt 0))"
            show ?thesis
            proof (cases ?total)
              case (Inl e)
              with body y data recs nonempty mr below show ?thesis by simp
            next
              case total: (Inr total_results)
              show ?thesis
              proof (cases "int_ge (offset + rows) total_results")
                case (Inl e)
                with body y data recs nonempty mr below total show ?thesis by simp
              next
                case (Inr reached)
                show ?thesis
                proof (cases reached)
                  case True
                  with body y data recs nonempty mr below total Inr
                  have "out = all_records @ records" by simp
                  with below show ?thesis by simp
                next
                  case False
                  with body y data recs nonempty mr below total Inr
                  have "loop charref requests_get rows max_records (n + 1)
                        (offset + rows) (all_records @ records) = Some (Inr out)" by simp
                  from IH [OF this] mr m below show ?thesis by simp
                qed
              qed
            qed
          qed
        qed
      qed
    qed
  qed
qed

lemma ex_crossref_registro: "\<exists>r. crossref_registro charref [] = Inr r"
  by (simp add: crossref_registro_def crossref_first_or_na_def crossref_issued_def
      crossref_format_authors_year_def crossref_clean_abstract_def crossref_open_access_def
      and_then_def dict_get_def Let_def)

lemma ex_crossref_page:
  "\<exists>r. crossref_process_data charref
          (PDict [(''message'', PDict [(''items'', PList [PDict [], PDict []]),
                                       (''total-results'', PInt 2)])]) = Inr [r, r]"
proof -
  from ex_crossref_registro obtain r where "crossref_registro charref [] = Inr r" ..
  then have "crossref_process_data charref
          (PDict [(''message'', PDict [(''items'', PList [PDict [], PDict []]),
                                       (''total-results'', PInt 2)])]) = Inr [r, r]"
    by (simp add: crossref_process_data_def and_then_def dict_get_def)
  then show ?thesis ..
qed

lemma ex_crossref_run:
  "\<exists>r. crossref_run_pipeline charref ex_crossref 20 (Some 1) = Some (Inr (DataFrame [r]))"
proof -
  from ex_crossref_page obtain r where "crossref_process_data charref
          (PDict [(''message'', PDict [(''items'', PList [PDict [], PDict []]),
                                       (''total-results'', PInt 2)])]) = Inr [r, r]" ..
  then have "crossref_loop charref ex_crossref 20 (Some 1) 0 0 [] = Some (Inr [r])"
    by (subst crossref_loop.simps)
       (simp add: ex_crossref_def crossref_fetch_data_def raise_for_status_def slice_to_def
          dict_get_def and_then_def)
  then have "crossref_run_pipeline charref ex_crossref 20 (Some 1) = Some (Inr (DataFrame [r]))"
    by (simp add: crossref_run_pipeline_def)
  then show ?thesis ..
qed

text \<open>
  X2. The Crossref adapter honours a positive limit: a frame that \<^verbatim>\<open>run_pipeline\<close> returns
  has at most \<^verbatim>\<open>max_records\<close> rows, because the list is cut as soon as it reaches the limit.
  (A limit of 0 is falsy in Python and counts as no limit.)
\<close>

theorem crossref_run_pipeline_within_limit:
  assumes "crossref_run_pipeline charref requests_get rows (Some m) = Some (Inr df)"
    and "m > 0"
  shows "int (length df) \<le> m"
proof -
  from assms(1) obtain r
    where l: "crossref_loop charref requests_get rows (Some m) 0 0 [] = Some r"
      and r: "map_sum id DataFrame r = Inr df"
    by (auto simp: crossref_run_pipeline_def)
  from r obtain out where out: "r = Inr out" and df: "df = DataFrame out"
    by (cases r) auto
  from crossref_loop_limit [OF l] out assms(2) have "int (length out) \<le> m" by simp
  with df show ?thesis by (simp add: DataFrame_def)
qed

theorem crossref_run_pipeline_within_limit_witness:
  "\<exists>df. crossref_run_pipeline id ex_crossref 20 (Some 1) = Some (Inr df)
        \<and> (0::int) < 1 \<and> int (length df) \<le> 1"
proof -
  from ex_crossref_run obtain r
    where run: "crossref_run_pipeline id ex_crossref 20 (Some 1) = Some (Inr (DataFrame [r]))" ..
  from crossref_run_pipeline_within_limit [OF run] run show ?thesis by simp
qed

subsection \<open>Semantic pretriage\<close>

lemma length_filter_zip3: "length (filter P (zip rs (zip (map f ts) ys))) \<le> length ts"
  by (rule order_trans [OF length_filter_le]) simp

lemma pretriage_at_most_500:
  assumes "pretriage_records api_key embedding_create sim records inclusion_keys exclusion_keys
       incl_threshold excl_threshold = Inr (Filtered kept)"
    and "\<forall>xs. length (embedding_create xs) = length xs"
  shows "length kept \<le> 500"
proof -
  let ?txt = "create_embeddings embedding_create (map record_text records)"
  have "length ?txt \<le> 500" using assms(2) by (simp add: create_embeddings_def)
  moreover have "length kept \<le> length ?txt"
    using assms(1)
    by (auto simp: pretriage_records_def Let_def length_filter_zip3
          split: if_splits option.splits)
  ultimately show ?thesis by simp
qed

text \<open>
  C9 fails beyond the 500th record. With one inclusion key, no exclusion key and both
  thresholds 0.3, 501 records that all score 1 for inclusion and 0 for exclusion should
  all survive; only the first 500 are returned, because \<^verbatim>\<open>_create_embeddings\<close> embeds
  \<^verbatim>\<open>inputs_list[:500]\<close> only and \<^verbatim>\<open>zip\<close> stops at the shorter list. (The embedding of a text
  is the text itself here, and the similarity is 1 for equal embeddings, 0 otherwise.)
\<close>

theorem pretriage_drops_after_500:
  "pretriage_records (Some ''sk-test'') (\<lambda>texts. texts) (\<lambda>t k. if t = k then 1 else 0)
     (replicate 501 [(''Title'', PStr ''A''), (''Abstract'', PStr [])]) [''A ''] [] 0.3 0.3
   = Inr (Filtered (replicate 500
       \<lparr>row_of = [(''Title'', PStr ''A''), (''Abstract'', PStr [])],
        score_inclusion = 1, score_exclusion = 0\<rparr>))"
proof -
  have t: "record_text [(''Title'', PStr ''A''), (''Abstract'', PStr [])] = ''A ''"
    by (simp add: record_text_def dict_get_def Let_def)
  have z: "zip (replicate 501 r) (zip (replicate 500 a) (replicate 500 b))
      = replicate 500 (r, a, b)" for r :: dict and a b :: real
    by (simp add: zip_replicate)
  show ?thesis
    by (simp add: pretriage_records_def create_embeddings_def max_similarity_def t z Let_def)
qed

end
